theory Spec2Isabelle
  imports Main
begin

section \<open>Python values shared by both modules\<close>

text \<open>
  Exceptions are values. Every \<^verbatim>\<open>raise\<close> of the two modules, and every exception
  their \<^verbatim>\<open>except\<close> clauses name, is a constructor; \<open>OtherError\<close> stands for any
  other exception a library call may raise.
\<close>

datatype exn =
    KeyError
  | EntityExistsError
  | ReservedNameError
  | RuntimeError
  | ValueError
  | AttributeError
  | FileNotFoundError
  | YAMLError
  | JSONDecodeError
  | TypeError
  | OtherError string

text \<open>
  A string is the list of the bytes of its UTF-8 encoding, so that equal lists are equal
  strings. \<^verbatim>\<open>str.lower\<close> and \<^verbatim>\<open>str.isnumeric\<close> look at code points. On a string of
  ASCII characters they are \<open>ascii_lower\<close> and \<open>ascii_isnumeric\<close>: the letters
  \<^verbatim>\<open>A\<close> to \<^verbatim>\<open>Z\<close> are mapped to \<^verbatim>\<open>a\<close> to \<^verbatim>\<open>z\<close>, and the numeric strings are the
  non-empty strings of decimal digits. On a string with a character outside ASCII they
  are parameters of the interpreter (see \<open>str_lower\<close> and \<open>str_isnumeric\<close> below).
\<close>

definition is_ascii :: "string \<Rightarrow> bool" where
  "is_ascii s = list_all (\<lambda>c. \<not> digit7 c) s"

definition lower_char :: "char \<Rightarrow> char" where
  "lower_char c =
     (case map_of (zip ''ABCDEFGHIJKLMNOPQRSTUVWXYZ'' ''abcdefghijklmnopqrstuvwxyz'') c of
        Some l \<Rightarrow> l
      | None \<Rightarrow> c)"

definition ascii_lower :: "string \<Rightarrow> string" where
  "ascii_lower s = map lower_char s"

definition is_digit :: "char \<Rightarrow> bool" where
  "is_digit c = (c \<in> set ''0123456789'')"

definition ascii_isnumeric :: "string \<Rightarrow> bool" where
  "ascii_isnumeric s = (s \<noteq> [] \<and> list_all is_digit s)"

definition digit_char :: "nat \<Rightarrow> char" where
  "digit_char d = ''0123456789'' ! d"

fun str_nat :: "nat \<Rightarrow> string" where
  "str_nat n =
     (if n < 10 then [digit_char n]
      else str_nat (n div 10) @ [digit_char (n mod 10)])"

declare str_nat.simps [simp del]

definition str_int :: "int \<Rightarrow> string" where
  "str_int i = (if i < 0 then CHR ''-'' # str_nat (nat (- i)) else str_nat (nat i))"

section \<open>zenml.model.model_version\<close>

subsection \<open>Data\<close>

type_synonym UUID = nat

text \<open>
  The field \<^verbatim>\<open>version: Optional[Union[ModelStages, int, str]]\<close>. The enumeration
  \<^verbatim>\<open>ModelStages\<close> is imported from \<^verbatim>\<open>zenml.enums\<close>: its members are strings, a
  member is carried here by its value, which is also its \<^verbatim>\<open>str\<close>, and the list
  \<^verbatim>\<open>ModelStages.values()\<close> is a parameter (\<open>ModelStages_values\<close> below). A \<^verbatim>\<open>bool\<close>
  is an \<^verbatim>\<open>int\<close> in Python and the field keeps it as it is: \<open>VBool\<close>.
\<close>

datatype version = VStage string | VBool bool | VInt int | VStr string

text \<open>Truthiness of \<^verbatim>\<open>self.version\<close>, as \<^verbatim>\<open>if self.version\<close> tests it.\<close>

fun version_truthy :: "version option \<Rightarrow> bool" where
  "version_truthy None = False"
| "version_truthy (Some (VStage s)) = (s \<noteq> [])"
| "version_truthy (Some (VBool b)) = b"
| "version_truthy (Some (VInt i)) = (i \<noteq> 0)"
| "version_truthy (Some (VStr s)) = (s \<noteq> [])"

text \<open>\<^verbatim>\<open>str(self.version)\<close>.\<close>

fun py_str :: "version option \<Rightarrow> string" where
  "py_str None = ''None''"
| "py_str (Some (VStage s)) = s"
| "py_str (Some (VBool b)) = (if b then ''True'' else ''False'')"
| "py_str (Some (VInt i)) = str_int i"
| "py_str (Some (VStr s)) = s"

text \<open>
  \<^verbatim>\<open>self.version == other.version\<close>. Integers and booleans are compared as numbers,
  \<^verbatim>\<open>True\<close> being \<^verbatim>\<open>1\<close> and \<^verbatim>\<open>False\<close> being \<^verbatim>\<open>0\<close>; a stage member is a string and
  equals the string of its value; a number never equals a string; \<^verbatim>\<open>None\<close> equals
  only \<^verbatim>\<open>None\<close>.
\<close>

fun as_number :: "version \<Rightarrow> int option" where
  "as_number (VBool b) = Some (if b then 1 else 0)"
| "as_number (VInt i) = Some i"
| "as_number (VStage s) = None"
| "as_number (VStr s) = None"

fun as_string :: "version \<Rightarrow> string option" where
  "as_string (VStage s) = Some s"
| "as_string (VStr s) = Some s"
| "as_string (VBool b) = None"
| "as_string (VInt i) = None"

fun version_eq :: "version option \<Rightarrow> version option \<Rightarrow> bool" where
  "version_eq None None = True"
| "version_eq None (Some b) = False"
| "version_eq (Some a) None = False"
| "version_eq (Some a) (Some b) = (as_number a = as_number b \<and> as_string a = as_string b)"

text \<open>The version is a \<^verbatim>\<open>bool\<close>.\<close>

fun is_bool :: "version option \<Rightarrow> bool" where
  "is_bool (Some (VBool b)) = True"
| "is_bool v = False"

record ModelVersion =
  name :: string
  license :: "string option"
  description :: "string option"
  audience :: "string option"
  use_cases :: "string option"
  limitations :: "string option"
  trade_offs :: "string option"
  ethics :: "string option"
  tags :: "string list option"
  version :: "version option"
  save_models_to_registry :: bool
  suppress_class_validation_warnings :: bool
  was_created_in_this_run :: bool
  priv_model_id :: "UUID option"
  priv_id :: "UUID option"
  priv_number :: "int option"

text \<open>
  The fields \<open>priv_model_id\<close>, \<open>priv_id\<close> and \<open>priv_number\<close> are the private
  attributes \<^verbatim>\<open>_model_id\<close>, \<^verbatim>\<open>_id\<close> and \<^verbatim>\<open>_number\<close>.

  The response and request models of the store are records of the fields this module
  reads or writes.
\<close>

record ModelResponseModel =
  model_id :: UUID
  model_name :: string

record ModelVersionResponseModel =
  mvr_id :: UUID
  mvr_name :: string
  mvr_number :: int
  mvr_stage :: "string option"
  mvr_model :: ModelResponseModel

record ModelRequestModel =
  req_name :: string
  req_license :: "string option"
  req_description :: "string option"
  req_audience :: "string option"
  req_use_cases :: "string option"
  req_limitations :: "string option"
  req_trade_offs :: "string option"
  req_ethics :: "string option"
  req_tags :: "string list option"
  req_user :: UUID
  req_workspace :: UUID

record ModelVersionRequestModel =
  mvreq_user :: UUID
  mvreq_workspace :: UUID
  mvreq_name :: "version option"
  mvreq_description :: "string option"
  mvreq_model :: UUID

subsection \<open>The store, the client and the step context\<close>

text \<open>
  The metadata store is a parameter: four operations on a store state \<open>'s\<close>, each
  returning the exception it raised or its response, and the state after the call.
\<close>

record 's ZenStore =
  get_model :: "string \<Rightarrow> 's \<Rightarrow> (exn + ModelResponseModel) \<times> 's"
  create_model :: "ModelRequestModel \<Rightarrow> 's \<Rightarrow> (exn + ModelResponseModel) \<times> 's"
  get_model_version ::
    "string \<Rightarrow> version option \<Rightarrow> 's \<Rightarrow> (exn + ModelVersionResponseModel) \<times> 's"
  create_model_version ::
    "ModelVersionRequestModel \<Rightarrow> 's \<Rightarrow> (exn + ModelVersionResponseModel) \<times> 's"

text \<open>
  \<^verbatim>\<open>get_step_context()\<close> raises \<^verbatim>\<open>RuntimeError\<close> outside a step (\<open>None\<close> here);
  inside one it gives the model version of the pipeline run's configuration and the
  model versions of the configurations of the run's steps, in the order of
  \<^verbatim>\<open>context.pipeline_run.steps.values()\<close>.
\<close>

record StepContext =
  pipeline_model_version :: "ModelVersion option"
  steps_model_versions :: "ModelVersion option list"

record 's Client =
  zen_store :: "'s ZenStore"
  active_user_id :: UUID
  active_workspace_id :: UUID
  ModelStages_values :: "string list"
  get_step_context :: "StepContext option"
  unicode_lower :: "string \<Rightarrow> string"
  unicode_isnumeric :: "string \<Rightarrow> bool"

text \<open>
  The last two fields are \<^verbatim>\<open>str.lower\<close> and \<^verbatim>\<open>str.isnumeric\<close> of the interpreter
  on the strings that have a character outside ASCII.
\<close>

definition str_lower :: "'s Client \<Rightarrow> string \<Rightarrow> string" where
  "str_lower C s = (if is_ascii s then ascii_lower s else unicode_lower C s)"

definition str_isnumeric :: "'s Client \<Rightarrow> string \<Rightarrow> bool" where
  "str_isnumeric C s = (if is_ascii s then ascii_isnumeric s else unicode_isnumeric C s)"

text \<open>Every call of a store operation is recorded, so that a theorem can count them.\<close>

datatype call =
    GetModel string
  | CreateModel ModelRequestModel
  | GetModelVersion string "version option"
  | CreateModelVersion ModelVersionRequestModel

record 's world =
  store :: 's
  calls :: "call list"

definition call_get_model ::
  "'s Client \<Rightarrow> string \<Rightarrow> 's world \<Rightarrow> (exn + ModelResponseModel) \<times> 's world" where
  "call_get_model C n w =
     (case get_model (zen_store C) n (store w) of
        (r, s') \<Rightarrow> (r, \<lparr>store = s', calls = calls w @ [GetModel n]\<rparr>))"

definition call_create_model ::
  "'s Client \<Rightarrow> ModelRequestModel \<Rightarrow> 's world \<Rightarrow> (exn + ModelResponseModel) \<times> 's world" where
  "call_create_model C rq w =
     (case create_model (zen_store C) rq (store w) of
        (r, s') \<Rightarrow> (r, \<lparr>store = s', calls = calls w @ [CreateModel rq]\<rparr>))"

definition call_get_model_version ::
  "'s Client \<Rightarrow> string \<Rightarrow> version option \<Rightarrow> 's world
     \<Rightarrow> (exn + ModelVersionResponseModel) \<times> 's world" where
  "call_get_model_version C n v w =
     (case get_model_version (zen_store C) n v (store w) of
        (r, s') \<Rightarrow> (r, \<lparr>store = s', calls = calls w @ [GetModelVersion n v]\<rparr>))"

definition call_create_model_version ::
  "'s Client \<Rightarrow> ModelVersionRequestModel \<Rightarrow> 's world
     \<Rightarrow> (exn + ModelVersionResponseModel) \<times> 's world" where
  "call_create_model_version C rq w =
     (case create_model_version (zen_store C) rq (store w) of
        (r, s') \<Rightarrow> (r, \<lparr>store = s', calls = calls w @ [CreateModelVersion rq]\<rparr>))"

subsection \<open>The methods\<close>

text \<open>
  A method takes the object and the world and returns the exception or the value, the
  object after the call and the world after the call. An exception leaves the
  assignments made before it in place. Building a request model from its fields, and
  reading the ids of the client's active user and workspace, are taken to return.
\<close>

definition model_request :: "'s Client \<Rightarrow> ModelVersion \<Rightarrow> ModelRequestModel" where
  "model_request C self =
     \<lparr>req_name = name self,
      req_license = license self,
      req_description = description self,
      req_audience = audience self,
      req_use_cases = use_cases self,
      req_limitations = limitations self,
      req_trade_offs = trade_offs self,
      req_ethics = ethics self,
      req_tags = tags self,
      req_user = active_user_id C,
      req_workspace = active_workspace_id C\<rparr>"

definition get_or_create_model ::
  "'s Client \<Rightarrow> ModelVersion \<Rightarrow> 's world
     \<Rightarrow> (exn + ModelResponseModel) \<times> ModelVersion \<times> 's world" where
  "get_or_create_model C self w =
     (case call_get_model C (name self) w of
        (Inr model, w1) \<Rightarrow> (Inr model, self\<lparr>priv_model_id := Some (model_id model)\<rparr>, w1)
      | (Inl KeyError, w1) \<Rightarrow>
          (case call_create_model C (model_request C self) w1 of
             (created, w2) \<Rightarrow>
               (case call_get_model C (name self) w2 of
                  (Inl e, w3) \<Rightarrow> (Inl e, self, w3)
                | (Inr model, w3) \<Rightarrow>
                    (case created of
                       Inr _ \<Rightarrow>
                         (Inr model, self\<lparr>priv_model_id := Some (model_id model)\<rparr>, w3)
                     | Inl EntityExistsError \<Rightarrow>
                         (Inr model, self\<lparr>priv_model_id := Some (model_id model)\<rparr>, w3)
                     | Inl e \<Rightarrow> (Inl e, self, w3))))
      | (Inl e, w1) \<Rightarrow> (Inl e, self, w1))"

definition get_model_version_m ::
  "'s Client \<Rightarrow> ModelVersion \<Rightarrow> 's world \<Rightarrow> (exn + ModelVersionResponseModel) \<times> 's world" where
  "get_model_version_m C self w = call_get_model_version C (name self) (version self) w"

definition model_version_request ::
  "'s Client \<Rightarrow> ModelVersion \<Rightarrow> ModelResponseModel \<Rightarrow> ModelVersionRequestModel" where
  "model_version_request C self model =
     \<lparr>mvreq_user = active_user_id C,
      mvreq_workspace = active_workspace_id C,
      mvreq_name = version self,
      mvreq_description = description self,
      mvreq_model = model_id model\<rparr>"

text \<open>The loop over the steps of the run: the first step whose model version matches.\<close>

fun first_step_mv :: "string \<Rightarrow> ModelVersion option list \<Rightarrow> ModelVersion option" where
  "first_step_mv n [] = None"
| "first_step_mv n (None # steps) = first_step_mv n steps"
| "first_step_mv n (Some step_mv # steps) =
     (if was_created_in_this_run step_mv \<and> name step_mv = n then Some step_mv
      else first_step_mv n steps)"

text \<open>The block under \<^verbatim>\<open>if not self.version\<close>.\<close>

definition version_from_step_context :: "'s Client \<Rightarrow> ModelVersion \<Rightarrow> ModelVersion" where
  "version_from_step_context C self =
     (case get_step_context C of
        None \<Rightarrow> self
      | Some context \<Rightarrow>
          (case pipeline_model_version context of
             Some pipeline_mv \<Rightarrow>
               if was_created_in_this_run pipeline_mv \<and> name pipeline_mv = name self
               then self\<lparr>version := version pipeline_mv\<rparr>
               else (case first_step_mv (name self) (steps_model_versions context) of
                       Some step_mv \<Rightarrow> self\<lparr>version := version step_mv\<rparr>
                     | None \<Rightarrow> self)
           | None \<Rightarrow>
               (case first_step_mv (name self) (steps_model_versions context) of
                  Some step_mv \<Rightarrow> self\<lparr>version := version step_mv\<rparr>
                | None \<Rightarrow> self)))"

text \<open>
  A model version of the name \<open>n\<close> was created in the current run: the model version
  of the pipeline run's configuration, or that of one of its steps, has the name and has
  \<^verbatim>\<open>was_created_in_this_run\<close> set.
\<close>

definition matches_created :: "string \<Rightarrow> ModelVersion option \<Rightarrow> bool" where
  "matches_created n mv =
     (case mv of None \<Rightarrow> False | Some m \<Rightarrow> was_created_in_this_run m \<and> name m = n)"

definition created_in_this_run :: "'s Client \<Rightarrow> string \<Rightarrow> bool" where
  "created_in_this_run C n =
     (case get_step_context C of
        None \<Rightarrow> False
      | Some context \<Rightarrow>
          matches_created n (pipeline_model_version context)
          \<or> list_ex (matches_created n) (steps_model_versions context))"

text \<open>The three assignments that end \<^verbatim>\<open>_get_or_create_model_version\<close>.\<close>

definition set_resolved :: "ModelVersion \<Rightarrow> ModelVersionResponseModel \<Rightarrow> ModelVersion" where
  "set_resolved self model_version =
     self\<lparr>priv_id := Some (mvr_id model_version),
          priv_model_id := Some (model_id (mvr_model model_version)),
          priv_number := Some (mvr_number model_version)\<rparr>"

text \<open>
  The versions under which no model version is created: the two tests that open the
  handler \<^verbatim>\<open>except KeyError\<close>, taken together.
\<close>

definition reserved_name :: "'s Client \<Rightarrow> version option \<Rightarrow> bool" where
  "reserved_name C v =
     ((version_truthy v \<and> str_lower C (py_str v) \<in> set (ModelStages_values C))
      \<or> str_isnumeric C (py_str v))"

text \<open>The handler \<^verbatim>\<open>except KeyError\<close> of \<^verbatim>\<open>_get_or_create_model_version\<close>.\<close>

definition except_KeyError ::
  "'s Client \<Rightarrow> ModelVersionRequestModel \<Rightarrow> ModelVersion \<Rightarrow> 's world
     \<Rightarrow> (exn + ModelVersionResponseModel) \<times> ModelVersion \<times> 's world" where
  "except_KeyError C mv_request self w =
     (if version_truthy (version self)
         \<and> str_lower C (py_str (version self)) \<in> set (ModelStages_values C)
      then (Inl ReservedNameError, self, w)
      else if str_isnumeric C (py_str (version self))
      then (Inl ReservedNameError, self, w)
      else (case call_create_model_version C mv_request w of
              (Inl e, w') \<Rightarrow> (Inl e, self, w')
            | (Inr model_version, w') \<Rightarrow>
                (Inr model_version,
                 set_resolved
                   (self\<lparr>version := Some (VStr (mvr_name model_version)),
                         was_created_in_this_run := True\<rparr>)
                   model_version,
                 w')))"

definition get_or_create_model_version ::
  "'s Client \<Rightarrow> ModelVersion \<Rightarrow> 's world
     \<Rightarrow> (exn + ModelVersionResponseModel) \<times> ModelVersion \<times> 's world" where
  "get_or_create_model_version C self w =
     (case get_or_create_model C self w of
        (Inl e, self1, w1) \<Rightarrow> (Inl e, self1, w1)
      | (Inr model, self1, w1) \<Rightarrow>
          (let mv_request = model_version_request C self1 model;
               self2 = (if \<not> version_truthy (version self1)
                        then version_from_step_context C self1 else self1)
           in if version_truthy (version self2)
              then (case get_model_version_m C self2 w1 of
                      (Inr model_version, w2) \<Rightarrow>
                        (Inr model_version, set_resolved self2 model_version, w2)
                    | (Inl KeyError, w2) \<Rightarrow> except_KeyError C mv_request self2 w2
                    | (Inl e, w2) \<Rightarrow> (Inl e, self2, w2))
              else except_KeyError C mv_request self2 w1))"

text \<open>The properties \<^verbatim>\<open>id\<close>, \<^verbatim>\<open>model_id\<close>, \<^verbatim>\<open>number\<close> and \<^verbatim>\<open>stage\<close>.\<close>

definition id_property ::
  "'s Client \<Rightarrow> ModelVersion \<Rightarrow> 's world \<Rightarrow> (exn + UUID option) \<times> ModelVersion \<times> 's world" where
  "id_property C self w =
     (if priv_id self = None
      then (case get_or_create_model_version C self w of
              (Inr _, self', w') \<Rightarrow> (Inr (priv_id self'), self', w')
            | (Inl ReservedNameError, self', w') \<Rightarrow> (Inr (priv_id self'), self', w')
            | (Inl e, self', w') \<Rightarrow> (Inl e, self', w'))
      else (Inr (priv_id self), self, w))"

definition model_id_property ::
  "'s Client \<Rightarrow> ModelVersion \<Rightarrow> 's world \<Rightarrow> (exn + UUID option) \<times> ModelVersion \<times> 's world" where
  "model_id_property C self w =
     (if priv_model_id self = None
      then (case get_or_create_model C self w of
              (Inr _, self', w') \<Rightarrow> (Inr (priv_model_id self'), self', w')
            | (Inl e, self', w') \<Rightarrow> (Inl e, self', w'))
      else (Inr (priv_model_id self), self, w))"

definition number_property ::
  "'s Client \<Rightarrow> ModelVersion \<Rightarrow> 's world \<Rightarrow> (exn + int option) \<times> ModelVersion \<times> 's world" where
  "number_property C self w =
     (if priv_number self = None
      then (case get_or_create_model_version C self w of
              (Inr _, self', w') \<Rightarrow> (Inr (priv_number self'), self', w')
            | (Inl ReservedNameError, self', w') \<Rightarrow> (Inr (priv_number self'), self', w')
            | (Inl e, self', w') \<Rightarrow> (Inl e, self', w'))
      else (Inr (priv_number self), self, w))"

text \<open>
  \<^verbatim>\<open>ModelStages(stage)\<close> raises \<^verbatim>\<open>ValueError\<close> for a string that is no stage value.
\<close>

definition stage_property ::
  "'s Client \<Rightarrow> ModelVersion \<Rightarrow> 's world \<Rightarrow> (exn + string option) \<times> ModelVersion \<times> 's world" where
  "stage_property C self w =
     (case get_or_create_model_version C self w of
        (Inr model_version, self', w') \<Rightarrow>
          (case mvr_stage model_version of
             None \<Rightarrow> (Inr None, self', w')
           | Some stage \<Rightarrow>
               if stage = [] then (Inr None, self', w')
               else if stage \<in> set (ModelStages_values C) then (Inr (Some stage), self', w')
               else (Inl ValueError, self', w'))
      | (Inl ReservedNameError, self', w') \<Rightarrow> (Inr None, self', w')
      | (Inl e, self', w') \<Rightarrow> (Inl e, self', w'))"

text \<open>
  \<^verbatim>\<open>__eq__\<close> on two \<^verbatim>\<open>ModelVersion\<close> objects, and \<^verbatim>\<open>__hash__\<close>; \<open>hash_key\<close> is
  the string that is hashed and \<open>py_hash\<close> is the built-in \<^verbatim>\<open>hash\<close> on strings.
\<close>

definition eq_method ::
  "'s Client \<Rightarrow> ModelVersion \<Rightarrow> ModelVersion \<Rightarrow> 's world
     \<Rightarrow> (exn + bool) \<times> ModelVersion \<times> ModelVersion \<times> 's world" where
  "eq_method C self other w =
     (if name self \<noteq> name other then (Inr False, self, other, w)
      else if name self = name other \<and> version_eq (version self) (version other)
      then (Inr True, self, other, w)
      else (case get_or_create_model_version C self w of
              (Inl e, self', w1) \<Rightarrow> (Inl e, self', other, w1)
            | (Inr self_mv, self', w1) \<Rightarrow>
                (case get_or_create_model_version C other w1 of
                   (Inl e, other', w2) \<Rightarrow> (Inl e, self', other', w2)
                 | (Inr other_mv, other', w2) \<Rightarrow>
                     (Inr (mvr_id self_mv = mvr_id other_mv), self', other', w2))))"

definition hash_key :: "ModelVersion \<Rightarrow> string" where
  "hash_key self = name self @ ''::'' @ py_str (version self)"

definition hash_method :: "(string \<Rightarrow> int) \<Rightarrow> ModelVersion \<Rightarrow> int" where
  "hash_method py_hash self = py_hash (hash_key self)"

text \<open>The calls of \<^verbatim>\<open>create_model_version\<close> among the recorded calls.\<close>

fun is_create_model_version :: "call \<Rightarrow> bool" where
  "is_create_model_version (CreateModelVersion rq) = True"
| "is_create_model_version c = False"

definition create_model_version_calls :: "call list \<Rightarrow> call list" where
  "create_model_version_calls cs = filter is_create_model_version cs"

subsection \<open>An in-memory store\<close>

text \<open>
  A store kept in two lists, on which the methods can be run: models are found by
  name; a model version is found by number for an integer, by stage for a stage and by
  name or stage for a string. It instantiates the store parameter in the examples that
  accompany the theorems; its client is run on ASCII strings and leaves the others as
  they are.
\<close>

record MemStore =
  models :: "ModelResponseModel list"
  model_versions :: "ModelVersionResponseModel list"

definition mem_get_model :: "string \<Rightarrow> MemStore \<Rightarrow> (exn + ModelResponseModel) \<times> MemStore" where
  "mem_get_model n s =
     (case find (\<lambda>m. model_name m = n) (models s) of
        Some m \<Rightarrow> (Inr m, s)
      | None \<Rightarrow> (Inl KeyError, s))"

definition mem_create_model ::
  "ModelRequestModel \<Rightarrow> MemStore \<Rightarrow> (exn + ModelResponseModel) \<times> MemStore" where
  "mem_create_model rq s =
     (case find (\<lambda>m. model_name m = req_name rq) (models s) of
        Some m \<Rightarrow> (Inl EntityExistsError, s)
      | None \<Rightarrow>
          (let m = \<lparr>model_id = Suc (length (models s)), model_name = req_name rq\<rparr>
           in (Inr m, s\<lparr>models := models s @ [m]\<rparr>)))"

fun mem_matches :: "version option \<Rightarrow> ModelVersionResponseModel \<Rightarrow> bool" where
  "mem_matches None mv = True"
| "mem_matches (Some (VBool b)) mv = (mvr_number mv = (if b then 1 else 0))"
| "mem_matches (Some (VInt i)) mv = (mvr_number mv = i)"
| "mem_matches (Some (VStage t)) mv = (mvr_stage mv = Some t)"
| "mem_matches (Some (VStr t)) mv = (mvr_name mv = t \<or> mvr_stage mv = Some t)"

definition mem_get_model_version ::
  "string \<Rightarrow> version option \<Rightarrow> MemStore \<Rightarrow> (exn + ModelVersionResponseModel) \<times> MemStore" where
  "mem_get_model_version n v s =
     (case find (\<lambda>mv. model_name (mvr_model mv) = n \<and> mem_matches v mv)
             (rev (model_versions s)) of
        Some mv \<Rightarrow> (Inr mv, s)
      | None \<Rightarrow> (Inl KeyError, s))"

definition mem_create_model_version ::
  "ModelVersionRequestModel \<Rightarrow> MemStore
     \<Rightarrow> (exn + ModelVersionResponseModel) \<times> MemStore" where
  "mem_create_model_version rq s =
     (case find (\<lambda>m. model_id m = mvreq_model rq) (models s) of
        None \<Rightarrow> (Inl KeyError, s)
      | Some m \<Rightarrow>
          (let number = 1 + int (length (filter (\<lambda>mv. mvr_model mv = m) (model_versions s)));
               new_name = (case mvreq_name rq of None \<Rightarrow> str_int number | Some v \<Rightarrow> py_str (Some v))
           in if list_ex (\<lambda>mv. mvr_model mv = m \<and> mvr_name mv = new_name) (model_versions s)
              then (Inl EntityExistsError, s)
              else (let mv = \<lparr>mvr_id = 100 + length (model_versions s), mvr_name = new_name,
                              mvr_number = number, mvr_stage = None, mvr_model = m\<rparr>
                    in (Inr mv, s\<lparr>model_versions := model_versions s @ [mv]\<rparr>))))"

definition mem_store :: "MemStore ZenStore" where
  "mem_store =
     \<lparr>get_model = mem_get_model,
      create_model = mem_create_model,
      get_model_version = mem_get_model_version,
      create_model_version = mem_create_model_version\<rparr>"

text \<open>
  The same store with a second client that creates the model right after a lookup of
  its name has missed.
\<close>

definition racing_get_model :: "string \<Rightarrow> MemStore \<Rightarrow> (exn + ModelResponseModel) \<times> MemStore" where
  "racing_get_model n s =
     (case find (\<lambda>m. model_name m = n) (models s) of
        Some m \<Rightarrow> (Inr m, s)
      | None \<Rightarrow>
          (Inl KeyError,
           s\<lparr>models := models s @ [\<lparr>model_id = Suc (length (models s)), model_name = n\<rparr>]\<rparr>))"

definition racing_store :: "MemStore ZenStore" where
  "racing_store = mem_store\<lparr>get_model := racing_get_model\<rparr>"

definition mem_client :: "MemStore Client" where
  "mem_client =
     \<lparr>zen_store = mem_store,
      active_user_id = 1,
      active_workspace_id = 2,
      ModelStages_values = [''none'', ''staging'', ''production'', ''archived'', ''latest''],
      get_step_context = None,
      unicode_lower = (\<lambda>s. s),
      unicode_isnumeric = (\<lambda>s. False)\<rparr>"

text \<open>
  The same client with an interpreter that knows one numeric string outside ASCII, the
  superscript two, whose UTF-8 encoding is the bytes C2 B2.
\<close>

definition superscript_two :: string where
  "superscript_two = [CHR 0xC2, CHR 0xB2]"

definition superscript_client :: "MemStore Client" where
  "superscript_client = mem_client\<lparr>unicode_isnumeric := (\<lambda>s. s = superscript_two)\<rparr>"

text \<open>A hash of strings for the examples: the length.\<close>

definition length_hash :: "string \<Rightarrow> int" where
  "length_hash s = int (length s)"

definition empty_world :: "MemStore world" where
  "empty_world = \<lparr>store = \<lparr>models = [], model_versions = []\<rparr>, calls = []\<rparr>"

definition new_ModelVersion :: "string \<Rightarrow> version option \<Rightarrow> ModelVersion" where
  "new_ModelVersion n v =
     \<lparr>name = n, license = None, description = None, audience = None, use_cases = None,
      limitations = None, trade_offs = None, ethics = None, tags = None, version = v,
      save_models_to_registry = True, suppress_class_validation_warnings = True,
      was_created_in_this_run = False,
      priv_model_id = None, priv_id = None, priv_number = None\<rparr>"

section \<open>zenml.utils.yaml_utils\<close>

subsection \<open>Data\<close>

text \<open>
  The values a YAML or JSON document parses to, and the values written: \<^verbatim>\<open>None\<close>,
  booleans, integers, strings, lists and dictionaries. A dictionary is the list of its
  items in insertion order.
\<close>

datatype pyval =
    PNone
  | PBool bool
  | PInt int
  | PStr string
  | PList "pyval list"
  | PDict "(pyval \<times> pyval) list"

text \<open>Truthiness, as \<^verbatim>\<open>read_yaml(file_path) or {}\<close> tests it.\<close>

fun truthy :: "pyval \<Rightarrow> bool" where
  "truthy PNone = False"
| "truthy (PBool b) = b"
| "truthy (PInt i) = (i \<noteq> 0)"
| "truthy (PStr s) = (s \<noteq> [])"
| "truthy (PList xs) = (xs \<noteq> [])"
| "truthy (PDict kvs) = (kvs \<noteq> [])"

text \<open>
  Two keys are the same key of a dictionary when they are equal in Python: \<^verbatim>\<open>True\<close>
  is the key \<^verbatim>\<open>1\<close> and \<^verbatim>\<open>False\<close> is the key \<^verbatim>\<open>0\<close>.
\<close>

fun key_norm :: "pyval \<Rightarrow> pyval" where
  "key_norm (PBool b) = PInt (if b then 1 else 0)"
| "key_norm v = v"

fun dict_get :: "(pyval \<times> pyval) list \<Rightarrow> pyval \<Rightarrow> pyval option" where
  "dict_get [] k = None"
| "dict_get ((a, b) # d) k = (if key_norm a = key_norm k then Some b else dict_get d k)"

text \<open>\<^verbatim>\<open>d[k] = v\<close>: the value of a key that is present is replaced, a new key is added last.\<close>

fun dict_set :: "(pyval \<times> pyval) list \<Rightarrow> pyval \<Rightarrow> pyval \<Rightarrow> (pyval \<times> pyval) list" where
  "dict_set [] k v = [(k, v)]"
| "dict_set ((a, b) # d) k v =
     (if key_norm a = key_norm k then (a, v) # d else (a, b) # dict_set d k v)"

text \<open>\<^verbatim>\<open>d.update(contents)\<close>: the items of \<^verbatim>\<open>contents\<close> are set one after the other.\<close>

fun dict_update :: "(pyval \<times> pyval) list \<Rightarrow> (pyval \<times> pyval) list \<Rightarrow> (pyval \<times> pyval) list" where
  "dict_update d [] = d"
| "dict_update d ((k, v) # contents) = dict_update (dict_set d k v) contents"

text \<open>A list of items is a dictionary when no two of its keys are the same key.\<close>

definition dict_keys :: "(pyval \<times> pyval) list \<Rightarrow> pyval list" where
  "dict_keys d = map (\<lambda>kv. key_norm (fst kv)) d"

definition is_dict :: "(pyval \<times> pyval) list \<Rightarrow> bool" where
  "is_dict d = distinct (dict_keys d)"

text \<open>
  Equality of values, \<^verbatim>\<open>==\<close>: numbers are compared as numbers, \<^verbatim>\<open>True\<close> being
  \<^verbatim>\<open>1\<close>; lists are equal when their elements are, in order; dictionaries are equal
  when they have as many items and every item of the first has its key, with an equal
  value, in the second, in whatever order.
\<close>

fun py_eq :: "pyval \<Rightarrow> pyval \<Rightarrow> bool"
  and py_eq_list :: "pyval list \<Rightarrow> pyval list \<Rightarrow> bool"
  and py_eq_item :: "pyval \<Rightarrow> pyval \<Rightarrow> (pyval \<times> pyval) list \<Rightarrow> bool"
  and py_eq_items :: "(pyval \<times> pyval) list \<Rightarrow> (pyval \<times> pyval) list \<Rightarrow> bool" where
  "py_eq (PList xs) (PList ys) = py_eq_list xs ys"
| "py_eq (PDict d) (PDict e) = (length d = length e \<and> py_eq_items d e)"
| "py_eq (PList xs) (PDict e) = False"
| "py_eq (PDict d) (PList ys) = False"
| "py_eq (PList xs) PNone = False"
| "py_eq (PList xs) (PBool b) = False"
| "py_eq (PList xs) (PInt i) = False"
| "py_eq (PList xs) (PStr s) = False"
| "py_eq (PDict d) PNone = False"
| "py_eq (PDict d) (PBool b) = False"
| "py_eq (PDict d) (PInt i) = False"
| "py_eq (PDict d) (PStr s) = False"
| "py_eq PNone b = (b = PNone)"
| "py_eq (PBool a) b = (key_norm (PBool a) = key_norm b)"
| "py_eq (PInt i) b = (PInt i = key_norm b)"
| "py_eq (PStr s) b = (b = PStr s)"
| "py_eq_list [] ys = (ys = [])"
| "py_eq_list (x # xs) [] = False"
| "py_eq_list (x # xs) (y # ys) = (py_eq x y \<and> py_eq_list xs ys)"
| "py_eq_item k v [] = False"
| "py_eq_item k v ((l, w) # e) = ((key_norm k = key_norm l \<and> py_eq v w) \<or> py_eq_item k v e)"
| "py_eq_items [] e = True"
| "py_eq_items ((k, v) # d) e = (py_eq_item k v e \<and> py_eq_items d e)"

subsection \<open>The file system and the codecs\<close>

text \<open>
  What the module imports is a parameter: \<^verbatim>\<open>io_utils.is_remote\<close>,
  \<^verbatim>\<open>str(Path(file_path).parent)\<close>, \<^verbatim>\<open>fileio.isdir\<close>, \<^verbatim>\<open>fileio.exists\<close>, the two
  functions of \<^verbatim>\<open>io_utils\<close> that write and read a file on a file system state \<open>'fs\<close>,
  and the codecs \<^verbatim>\<open>yaml.dump\<close>, \<^verbatim>\<open>yaml.safe_load\<close>, \<^verbatim>\<open>json.dumps\<close> (with its encoder
  class \<open>'enc\<close>) and \<^verbatim>\<open>json.loads\<close>. A codec gives \<open>None\<close> where it raises.
\<close>

record ('fs, 'enc) IO =
  is_remote :: "string \<Rightarrow> bool"
  path_parent :: "string \<Rightarrow> string"
  fileio_isdir :: "string \<Rightarrow> 'fs \<Rightarrow> bool"
  fileio_exists :: "string \<Rightarrow> 'fs \<Rightarrow> bool"
  write_file_contents_as_string :: "string \<Rightarrow> string \<Rightarrow> 'fs \<Rightarrow> (exn + unit) \<times> 'fs"
  read_file_contents_as_string :: "string \<Rightarrow> 'fs \<Rightarrow> exn + string"
  yaml_dump :: "pyval \<Rightarrow> bool \<Rightarrow> string option"
  yaml_safe_load :: "string \<Rightarrow> pyval option"
  json_dumps :: "pyval \<Rightarrow> 'enc option \<Rightarrow> string option"
  json_loads :: "string \<Rightarrow> pyval option"

subsection \<open>The functions\<close>

text \<open>The check that opens the four writing functions.\<close>

definition directory_missing :: "('fs, 'enc) IO \<Rightarrow> string \<Rightarrow> 'fs \<Rightarrow> bool" where
  "directory_missing E file_path fs =
     (\<not> is_remote E file_path \<and> \<not> fileio_isdir E (path_parent E file_path) fs)"

definition write_yaml ::
  "('fs, 'enc) IO \<Rightarrow> string \<Rightarrow> (pyval \<times> pyval) list \<Rightarrow> bool \<Rightarrow> 'fs \<Rightarrow> (exn + unit) \<times> 'fs" where
  "write_yaml E file_path contents sort_keys fs =
     (if directory_missing E file_path fs then (Inl FileNotFoundError, fs)
      else (case yaml_dump E (PDict contents) sort_keys of
              None \<Rightarrow> (Inl YAMLError, fs)
            | Some text \<Rightarrow> write_file_contents_as_string E file_path text fs))"

definition read_yaml :: "('fs, 'enc) IO \<Rightarrow> string \<Rightarrow> 'fs \<Rightarrow> exn + pyval" where
  "read_yaml E file_path fs =
     (if fileio_exists E file_path fs
      then (case read_file_contents_as_string E file_path fs of
              Inl e \<Rightarrow> Inl e
            | Inr contents \<Rightarrow>
                (case yaml_safe_load E contents of
                   None \<Rightarrow> Inl YAMLError
                 | Some v \<Rightarrow> Inr v))
      else Inl FileNotFoundError)"

definition append_yaml ::
  "('fs, 'enc) IO \<Rightarrow> string \<Rightarrow> (pyval \<times> pyval) list \<Rightarrow> 'fs \<Rightarrow> (exn + unit) \<times> 'fs" where
  "append_yaml E file_path contents fs =
     (case read_yaml E file_path fs of
        Inl e \<Rightarrow> (Inl e, fs)
      | Inr loaded \<Rightarrow>
          (case (if truthy loaded then loaded else PDict []) of
             PDict file_contents \<Rightarrow>
               (let file_contents = dict_update file_contents contents
                in if directory_missing E file_path fs then (Inl FileNotFoundError, fs)
                   else (case yaml_dump E (PDict file_contents) True of
                           None \<Rightarrow> (Inl YAMLError, fs)
                         | Some text \<Rightarrow> write_file_contents_as_string E file_path text fs))
           | _ \<Rightarrow> (Inl AttributeError, fs)))"

definition write_json ::
  "('fs, 'enc) IO \<Rightarrow> string \<Rightarrow> (pyval \<times> pyval) list \<Rightarrow> 'enc option \<Rightarrow> 'fs
     \<Rightarrow> (exn + unit) \<times> 'fs" where
  "write_json E file_path contents encoder fs =
     (if directory_missing E file_path fs then (Inl FileNotFoundError, fs)
      else (case json_dumps E (PDict contents) encoder of
              None \<Rightarrow> (Inl TypeError, fs)
            | Some text \<Rightarrow> write_file_contents_as_string E file_path text fs))"

definition read_json :: "('fs, 'enc) IO \<Rightarrow> string \<Rightarrow> 'fs \<Rightarrow> exn + pyval" where
  "read_json E file_path fs =
     (if fileio_exists E file_path fs
      then (case read_file_contents_as_string E file_path fs of
              Inl e \<Rightarrow> Inl e
            | Inr contents \<Rightarrow>
                (case json_loads E contents of
                   None \<Rightarrow> Inl JSONDecodeError
                 | Some v \<Rightarrow> Inr v))
      else Inl FileNotFoundError)"

definition write_json_string ::
  "('fs, 'enc) IO \<Rightarrow> string \<Rightarrow> string \<Rightarrow> 'fs \<Rightarrow> (exn + unit) \<times> 'fs" where
  "write_json_string E file_path contents fs =
     (if directory_missing E file_path fs then (Inl FileNotFoundError, fs)
      else write_file_contents_as_string E file_path contents fs)"

definition read_json_string :: "('fs, 'enc) IO \<Rightarrow> string \<Rightarrow> 'fs \<Rightarrow> exn + string" where
  "read_json_string E file_path fs =
     (if fileio_exists E file_path fs then read_file_contents_as_string E file_path fs
      else Inl FileNotFoundError)"


subsection \<open>An in-memory file system and two codecs\<close>

text \<open>
  A file system kept in two lists, and a codec for the mappings of strings to strings
  written one \<^verbatim>\<open>key: value\<close> a line, the block mappings of YAML, on which the
  functions can be run. A path is remote when it starts with \<^verbatim>\<open>s3://\<close>. They
  instantiate the parameters in the examples that accompany the theorems.
\<close>

record MemFS =
  mem_files :: "(string \<times> string) list"
  mem_dirs :: "string list"

definition mem_is_remote :: "string \<Rightarrow> bool" where
  "mem_is_remote p = (take 5 p = ''s3://'')"

definition mem_parent :: "string \<Rightarrow> string" where
  "mem_parent p =
     (if CHR ''/'' \<in> set p then rev (drop 1 (dropWhile (\<lambda>c. c \<noteq> CHR ''/'') (rev p)))
      else ''.'')"

definition mem_isdir :: "string \<Rightarrow> MemFS \<Rightarrow> bool" where
  "mem_isdir p fs = (p \<in> set (mem_dirs fs))"

definition mem_exists :: "string \<Rightarrow> MemFS \<Rightarrow> bool" where
  "mem_exists p fs = (map_of (mem_files fs) p \<noteq> None \<or> p \<in> set (mem_dirs fs))"

definition mem_write :: "string \<Rightarrow> string \<Rightarrow> MemFS \<Rightarrow> (exn + unit) \<times> MemFS" where
  "mem_write p text fs =
     (if p \<in> set (mem_dirs fs) then (Inl (OtherError ''IsADirectoryError''), fs)
      else (Inr (), fs\<lparr>mem_files := (p, text) # mem_files fs\<rparr>))"

definition mem_read :: "string \<Rightarrow> MemFS \<Rightarrow> exn + string" where
  "mem_read p fs =
     (case map_of (mem_files fs) p of
        Some text \<Rightarrow> Inr text
      | None \<Rightarrow>
          if p \<in> set (mem_dirs fs) then Inl (OtherError ''IsADirectoryError'')
          else Inl FileNotFoundError)"

fun line_dump :: "(pyval \<times> pyval) list \<Rightarrow> string option" where
  "line_dump [] = Some []"
| "line_dump ((PStr k, PStr v) # kvs) =
     (case line_dump kvs of
        None \<Rightarrow> None
      | Some rest \<Rightarrow> Some (k @ '': '' @ v @ [CHR 0x0A] @ rest))"
| "line_dump (kv # kvs) = None"

fun str_le :: "string \<Rightarrow> string \<Rightarrow> bool" where
  "str_le [] t = True"
| "str_le (c # s) [] = False"
| "str_le (c # s) (d # t) =
     ((of_char c :: nat) < of_char d \<or> (c = d \<and> str_le s t))"

fun key_le :: "pyval \<times> pyval \<Rightarrow> pyval \<times> pyval \<Rightarrow> bool" where
  "key_le (PStr k, v) (PStr l, w) = str_le k l"
| "key_le kv lw = True"

fun insert_item :: "pyval \<times> pyval \<Rightarrow> (pyval \<times> pyval) list \<Rightarrow> (pyval \<times> pyval) list" where
  "insert_item kv [] = [kv]"
| "insert_item kv (lw # d) = (if key_le kv lw then kv # lw # d else lw # insert_item kv d)"

definition sort_items :: "(pyval \<times> pyval) list \<Rightarrow> (pyval \<times> pyval) list" where
  "sort_items d = foldr insert_item d []"

fun line_codec_dump :: "pyval \<Rightarrow> bool \<Rightarrow> string option" where
  "line_codec_dump (PDict d) sort_keys = line_dump (if sort_keys then sort_items d else d)"
| "line_codec_dump v sort_keys = None"

fun split_on :: "char \<Rightarrow> string \<Rightarrow> string \<Rightarrow> string list" where
  "split_on sep cur [] = (if cur = [] then [] else [rev cur])"
| "split_on sep cur (c # s) =
     (if c = sep then rev cur # split_on sep [] s else split_on sep (c # cur) s)"

definition parse_line :: "string \<Rightarrow> pyval \<times> pyval" where
  "parse_line l =
     (PStr (takeWhile (\<lambda>c. c \<noteq> CHR '':'') l),
      PStr (drop 2 (dropWhile (\<lambda>c. c \<noteq> CHR '':'') l)))"

definition line_codec_load :: "string \<Rightarrow> pyval option" where
  "line_codec_load text =
     (if text = [] then Some PNone
      else if list_all (\<lambda>l. CHR '':'' \<in> set l) (split_on (CHR 0x0A) [] text)
      then Some (PDict (map parse_line (split_on (CHR 0x0A) [] text)))
      else None)"

text \<open>
  A JSON codec for the documents whose strings are made of letters, digits, spaces and
  the characters \<^verbatim>\<open>_ - . : /\<close>, and whose numbers are integers; outside these it gives
  \<open>None\<close>. \<open>json_text\<close> writes as \<^verbatim>\<open>json.dumps\<close> does with its default separators:
  a key that is a number, a boolean or \<^verbatim>\<open>None\<close> is written as the string of its JSON
  text. \<open>json_parse\<close> reads as \<^verbatim>\<open>json.loads\<close> does: a key is always a string, and of
  two items of one key the later one stays.
\<close>

definition plain_char :: "char \<Rightarrow> bool" where
  "plain_char c =
     (c \<in> set ''abcdefghijklmnopqrstuvwxyzABCDEFGHIJKLMNOPQRSTUVWXYZ0123456789 _-.:/'')"

fun join_items :: "string list \<Rightarrow> string" where
  "join_items [] = []"
| "join_items [t] = t"
| "join_items (t # u # ts) = t @ '', '' @ join_items (u # ts)"

fun json_key :: "pyval \<Rightarrow> string option" where
  "json_key (PStr s) = (if list_all plain_char s then Some s else None)"
| "json_key (PInt i) = Some (str_int i)"
| "json_key (PBool b) = Some (if b then ''true'' else ''false'')"
| "json_key PNone = Some ''null''"
| "json_key (PList xs) = None"
| "json_key (PDict d) = None"

fun json_text :: "pyval \<Rightarrow> string option"
  and json_texts :: "pyval list \<Rightarrow> string list option"
  and json_members :: "(pyval \<times> pyval) list \<Rightarrow> string list option" where
  "json_text PNone = Some ''null''"
| "json_text (PBool b) = Some (if b then ''true'' else ''false'')"
| "json_text (PInt i) = Some (str_int i)"
| "json_text (PStr s) =
     (if list_all plain_char s then Some ([CHR 0x22] @ s @ [CHR 0x22]) else None)"
| "json_text (PList xs) =
     (case json_texts xs of None \<Rightarrow> None | Some ts \<Rightarrow> Some (''['' @ join_items ts @ '']''))"
| "json_text (PDict d) =
     (case json_members d of None \<Rightarrow> None | Some ts \<Rightarrow> Some (''{'' @ join_items ts @ ''}''))"
| "json_texts [] = Some []"
| "json_texts (x # xs) =
     (case json_text x of
        None \<Rightarrow> None
      | Some t \<Rightarrow> (case json_texts xs of None \<Rightarrow> None | Some ts \<Rightarrow> Some (t # ts)))"
| "json_members [] = Some []"
| "json_members ((k, v) # d) =
     (case json_key k of
        None \<Rightarrow> None
      | Some kt \<Rightarrow>
          (case json_text v of
             None \<Rightarrow> None
           | Some vt \<Rightarrow>
               (case json_members d of
                  None \<Rightarrow> None
                | Some ts \<Rightarrow> Some (([CHR 0x22] @ kt @ [CHR 0x22] @ '': '' @ vt) # ts))))"

definition skip_ws :: "string \<Rightarrow> string" where
  "skip_ws s = dropWhile (\<lambda>c. c \<in> set [CHR '' '', CHR 0x0A, CHR 0x0D, CHR 0x09]) s"

text \<open>The characters of a string up to its closing quote, and what follows it.\<close>

fun parse_string :: "string \<Rightarrow> (string \<times> string) option" where
  "parse_string [] = None"
| "parse_string (c # s) =
     (if c = CHR 0x22 then Some ([], s)
      else if plain_char c
      then (case parse_string s of None \<Rightarrow> None | Some (t, r) \<Rightarrow> Some (c # t, r))
      else None)"

definition digit_value :: "char \<Rightarrow> nat" where
  "digit_value c = length (takeWhile (\<lambda>d. d \<noteq> c) ''0123456789'')"

definition nat_of_digits :: "string \<Rightarrow> nat" where
  "nat_of_digits ds = foldl (\<lambda>n c. 10 * n + digit_value c) 0 ds"

definition parse_int :: "string \<Rightarrow> (pyval \<times> string) option" where
  "parse_int s =
     (let negative = (take 1 s = ''-'');
          body = (if negative then drop 1 s else s);
          ds = takeWhile is_digit body;
          r = dropWhile is_digit body
      in if ds = [] \<or> (1 < length ds \<and> take 1 ds = ''0'')
            \<or> take 1 r = ''.'' \<or> take 1 r = ''e'' \<or> take 1 r = ''E''
         then None
         else Some (PInt (if negative then - int (nat_of_digits ds) else int (nat_of_digits ds)),
                    r))"

text \<open>
  The parser descends with a bound on the number of values it may still read; the
  length of the text is enough.
\<close>

fun parse_value :: "nat \<Rightarrow> string \<Rightarrow> (pyval \<times> string) option"
  and parse_elements :: "nat \<Rightarrow> string \<Rightarrow> (pyval list \<times> string) option"
  and parse_members :: "nat \<Rightarrow> string \<Rightarrow> ((pyval \<times> pyval) list \<times> string) option" where
  "parse_value 0 s = None"
| "parse_value (Suc n) s =
     (let t = skip_ws s
      in if take 4 t = ''null'' then Some (PNone, drop 4 t)
         else if take 4 t = ''true'' then Some (PBool True, drop 4 t)
         else if take 5 t = ''false'' then Some (PBool False, drop 5 t)
         else if take 1 t = [CHR 0x22]
         then (case parse_string (drop 1 t) of
                 None \<Rightarrow> None
               | Some (x, r) \<Rightarrow> Some (PStr x, r))
         else if take 1 t = ''[''
         then (if take 1 (skip_ws (drop 1 t)) = '']''
               then Some (PList [], drop 1 (skip_ws (drop 1 t)))
               else (case parse_elements n (drop 1 t) of
                       None \<Rightarrow> None
                     | Some (xs, r) \<Rightarrow> Some (PList xs, r)))
         else if take 1 t = ''{''
         then (if take 1 (skip_ws (drop 1 t)) = ''}''
               then Some (PDict [], drop 1 (skip_ws (drop 1 t)))
               else (case parse_members n (drop 1 t) of
                       None \<Rightarrow> None
                     | Some (d, r) \<Rightarrow> Some (PDict (dict_update [] d), r)))
         else parse_int t)"
| "parse_elements 0 s = None"
| "parse_elements (Suc n) s =
     (case parse_value n s of
        None \<Rightarrow> None
      | Some (x, r) \<Rightarrow>
          (let t = skip_ws r
           in if take 1 t = '',''
              then (case parse_elements n (drop 1 t) of
                      None \<Rightarrow> None
                    | Some (xs, r') \<Rightarrow> Some (x # xs, r'))
              else if take 1 t = '']'' then Some ([x], drop 1 t)
              else None))"
| "parse_members 0 s = None"
| "parse_members (Suc n) s =
     (let t = skip_ws s
      in if take 1 t = [CHR 0x22]
         then (case parse_string (drop 1 t) of
                 None \<Rightarrow> None
               | Some (k, r) \<Rightarrow>
                   (let u = skip_ws r
                    in if take 1 u = '':''
                       then (case parse_value n (drop 1 u) of
                               None \<Rightarrow> None
                             | Some (v, r') \<Rightarrow>
                                 (let t' = skip_ws r'
                                  in if take 1 t' = '',''
                                     then (case parse_members n (drop 1 t') of
                                             None \<Rightarrow> None
                                           | Some (d, r'') \<Rightarrow> Some ((PStr k, v) # d, r''))
                                     else if take 1 t' = ''}''
                                     then Some ([(PStr k, v)], drop 1 t')
                                     else None))
                       else None))
         else None)"

definition json_parse :: "string \<Rightarrow> pyval option" where
  "json_parse text =
     (case parse_value (Suc (length text)) text of
        None \<Rightarrow> None
      | Some (v, r) \<Rightarrow> if skip_ws r = [] then Some v else None)"

definition mem_io :: "(MemFS, unit) IO" where
  "mem_io =
     \<lparr>is_remote = mem_is_remote,
      path_parent = mem_parent,
      fileio_isdir = mem_isdir,
      fileio_exists = mem_exists,
      write_file_contents_as_string = mem_write,
      read_file_contents_as_string = mem_read,
      yaml_dump = line_codec_dump,
      yaml_safe_load = line_codec_load,
      json_dumps = (\<lambda>v encoder. json_text v),
      json_loads = json_parse\<rparr>"

definition home_fs :: MemFS where
  "home_fs = \<lparr>mem_files = [(''/home/conf.yaml'', ''a: x'' @ [CHR 0x0A])], mem_dirs = [''/home'']\<rparr>"

section \<open>Properties of zenml.utils.yaml_utils\<close>

subsection \<open>Dictionaries\<close>

lemma dict_get_set:
  "dict_get (dict_set d k v) k' = (if key_norm k = key_norm k' then Some v else dict_get d k')"
  by (induction d) auto

lemma dict_get_absent:
  "key_norm k \<notin> set (dict_keys c) \<Longrightarrow> dict_get c k = None"
  by (induction c) (auto simp: dict_keys_def)

lemma dict_get_update:
  "is_dict c \<Longrightarrow>
     dict_get (dict_update d c) k = (case dict_get c k of Some v \<Rightarrow> Some v | None \<Rightarrow> dict_get d k)"
proof (induction c arbitrary: d)
  case Nil
  then show ?case by simp
next
  case (Cons kv c)
  obtain k0 v0 where kv: "kv = (k0, v0)" by (cases kv)
  from Cons.prems have fresh: "key_norm k0 \<notin> set (dict_keys c)" and rest: "is_dict c"
    by (simp_all add: is_dict_def dict_keys_def kv)
  have step: "dict_get (dict_update (dict_set d k0 v0) c) k =
      (case dict_get c k of Some v \<Rightarrow> Some v | None \<Rightarrow> dict_get (dict_set d k0 v0) k)"
    using Cons.IH [OF rest] .
  show ?case
  proof (cases "key_norm k0 = key_norm k")
    case True
    with fresh have "dict_get c k = None" by (simp add: dict_get_absent)
    with True step show ?thesis by (simp add: kv dict_get_set)
  next
    case False
    with step show ?thesis by (simp add: kv dict_get_set split: option.splits)
  qed
qed

subsection \<open>Evaluating the in-memory file system\<close>

lemmas mem_simps = mem_io_def mem_is_remote_def mem_parent_def mem_isdir_def mem_exists_def
  mem_write_def mem_read_def home_fs_def line_codec_load_def parse_line_def sort_items_def


subsection \<open>Writing and reading\<close>





text \<open>
  C6. \<^verbatim>\<open>read_yaml\<close>, \<^verbatim>\<open>read_json\<close> and \<^verbatim>\<open>read_json_string\<close> raise
  \<^verbatim>\<open>FileNotFoundError\<close> exactly when \<^verbatim>\<open>fileio.exists\<close> is false for the path,
  given that reading a path that exists does not itself raise \<^verbatim>\<open>FileNotFoundError\<close>;
  when the file exists and is read, \<^verbatim>\<open>read_json_string\<close> returns the text read and
  the other two return what the codec parses it to.
\<close>

theorem read_raises_FileNotFoundError_iff:
  assumes "fileio_exists E file_path fs \<Longrightarrow>
             read_file_contents_as_string E file_path fs \<noteq> Inl FileNotFoundError"
  shows "(read_yaml E file_path fs = Inl FileNotFoundError \<longleftrightarrow> \<not> fileio_exists E file_path fs)
       \<and> (read_json E file_path fs = Inl FileNotFoundError \<longleftrightarrow> \<not> fileio_exists E file_path fs)
       \<and> (read_json_string E file_path fs = Inl FileNotFoundError
            \<longleftrightarrow> \<not> fileio_exists E file_path fs)
       \<and> (\<forall>text. fileio_exists E file_path fs
              \<and> read_file_contents_as_string E file_path fs = Inr text \<longrightarrow>
            read_json_string E file_path fs = Inr text
            \<and> (\<forall>v. yaml_safe_load E text = Some v \<longrightarrow> read_yaml E file_path fs = Inr v)
            \<and> (\<forall>v. json_loads E text = Some v \<longrightarrow> read_json E file_path fs = Inr v))"
proof -
  have yaml: "read_yaml E file_path fs = Inl FileNotFoundError \<longleftrightarrow> \<not> fileio_exists E file_path fs"
    using assms by (auto simp: read_yaml_def split: sum.splits option.splits)
  have json: "read_json E file_path fs = Inl FileNotFoundError \<longleftrightarrow> \<not> fileio_exists E file_path fs"
    using assms by (auto simp: read_json_def split: sum.splits option.splits)
  have str: "read_json_string E file_path fs = Inl FileNotFoundError
      \<longleftrightarrow> \<not> fileio_exists E file_path fs"
    using assms by (auto simp: read_json_string_def)
  have found: "\<forall>text. fileio_exists E file_path fs
              \<and> read_file_contents_as_string E file_path fs = Inr text \<longrightarrow>
            read_json_string E file_path fs = Inr text
            \<and> (\<forall>v. yaml_safe_load E text = Some v \<longrightarrow> read_yaml E file_path fs = Inr v)
            \<and> (\<forall>v. json_loads E text = Some v \<longrightarrow> read_json E file_path fs = Inr v)"
    by (simp add: read_json_string_def read_yaml_def read_json_def)
  from yaml json str found show ?thesis by blast
qed

text \<open>An existing file is read and parsed; a missing one raises.\<close>

theorem read_raises_FileNotFoundError_iff_witness:
  "fileio_exists mem_io ''/home/conf.yaml'' home_fs
   \<and> read_yaml mem_io ''/home/conf.yaml'' home_fs = Inr (PDict [(PStr ''a'', PStr ''x'')])
   \<and> read_json_string mem_io ''/home/conf.yaml'' home_fs = Inr (''a: x'' @ [CHR 0x0A])
   \<and> \<not> fileio_exists mem_io ''/home/none.yaml'' home_fs
   \<and> read_yaml mem_io ''/home/none.yaml'' home_fs = Inl FileNotFoundError
   \<and> read_json mem_io ''/home/none.yaml'' home_fs = Inl FileNotFoundError
   \<and> read_json_string mem_io ''/home/none.yaml'' home_fs = Inl FileNotFoundError"
proof -
  have e1: "fileio_exists mem_io ''/home/conf.yaml'' home_fs" by (simp add: mem_simps)
  have r1: "read_file_contents_as_string mem_io ''/home/conf.yaml'' home_fs = Inr (''a: x'' @ [CHR 0x0A])"
    by (simp add: mem_simps)
  have l1: "yaml_safe_load mem_io (''a: x'' @ [CHR 0x0A]) = Some (PDict [(PStr ''a'', PStr ''x'')])"
    by (simp add: mem_simps)
  have e2: "\<not> fileio_exists mem_io ''/home/none.yaml'' home_fs" by (simp add: mem_simps)
  have a1: "read_file_contents_as_string mem_io ''/home/conf.yaml'' home_fs \<noteq> Inl FileNotFoundError"
    using r1 by simp
  show ?thesis
    using read_raises_FileNotFoundError_iff [of mem_io "''/home/conf.yaml''" home_fs, OF a1]
      read_raises_FileNotFoundError_iff [of mem_io "''/home/none.yaml''" home_fs]
      e1 r1 l1 e2
    by simp
qed

text \<open>
  C7. For a path that is not remote and whose parent is not a directory,
  \<^verbatim>\<open>write_yaml\<close>, \<^verbatim>\<open>write_json\<close> and \<^verbatim>\<open>write_json_string\<close> raise
  \<^verbatim>\<open>FileNotFoundError\<close> and leave the file system as it was; for a remote path the
  directory is not looked at and the result is that of writing the dumped contents.
\<close>

theorem write_checks_directory_first:
  "(\<not> is_remote E file_path \<and> \<not> fileio_isdir E (path_parent E file_path) fs \<longrightarrow>
      write_yaml E file_path contents sort_keys fs = (Inl FileNotFoundError, fs)
      \<and> write_json E file_path contents encoder fs = (Inl FileNotFoundError, fs)
      \<and> write_json_string E file_path text fs = (Inl FileNotFoundError, fs))
   \<and> (is_remote E file_path \<longrightarrow>
      write_yaml E file_path contents sort_keys fs =
        (case yaml_dump E (PDict contents) sort_keys of
           None \<Rightarrow> (Inl YAMLError, fs)
         | Some ytext \<Rightarrow> write_file_contents_as_string E file_path ytext fs)
      \<and> write_json E file_path contents encoder fs =
        (case json_dumps E (PDict contents) encoder of
           None \<Rightarrow> (Inl TypeError, fs)
         | Some jtext \<Rightarrow> write_file_contents_as_string E file_path jtext fs)
      \<and> write_json_string E file_path text fs
          = write_file_contents_as_string E file_path text fs)"
  by (simp add: write_yaml_def write_json_def write_json_string_def directory_missing_def)

text \<open>A local path in a missing directory, and a remote path in one.\<close>

theorem write_checks_directory_first_witness:
  "\<not> is_remote mem_io ''/nodir/new.yaml''
   \<and> \<not> fileio_isdir mem_io (path_parent mem_io ''/nodir/new.yaml'') home_fs
   \<and> write_yaml mem_io ''/nodir/new.yaml'' [(PStr ''a'', PStr ''x'')] True home_fs
       = (Inl FileNotFoundError, home_fs)
   \<and> write_json mem_io ''/nodir/new.yaml'' [(PStr ''a'', PStr ''x'')] None home_fs
       = (Inl FileNotFoundError, home_fs)
   \<and> write_json_string mem_io ''/nodir/new.yaml'' ''{}'' home_fs
       = (Inl FileNotFoundError, home_fs)
   \<and> is_remote mem_io ''s3://nodir/new.yaml''
   \<and> write_json_string mem_io ''s3://nodir/new.yaml'' ''{}'' home_fs
       = (Inr (), home_fs\<lparr>mem_files := (''s3://nodir/new.yaml'', ''{}'') # mem_files home_fs\<rparr>)"
proof -
  have local: "\<not> is_remote mem_io ''/nodir/new.yaml''" by (simp add: mem_simps)
  have nodir: "\<not> fileio_isdir mem_io (path_parent mem_io ''/nodir/new.yaml'') home_fs"
    by (simp add: mem_simps)
  have remote: "is_remote mem_io ''s3://nodir/new.yaml''" by (simp add: mem_simps)
  have written: "write_file_contents_as_string mem_io ''s3://nodir/new.yaml'' ''{}'' home_fs
       = (Inr (), home_fs\<lparr>mem_files := (''s3://nodir/new.yaml'', ''{}'') # mem_files home_fs\<rparr>)"
    by (simp add: mem_simps)
  show ?thesis
    using write_checks_directory_first
        [of mem_io "''/nodir/new.yaml''" home_fs "[(PStr ''a'', PStr ''x'')]" True None "''{}''"]
      write_checks_directory_first
        [of mem_io "''s3://nodir/new.yaml''" home_fs "[(PStr ''a'', PStr ''x'')]" True None "''{}''"]
      local nodir remote written
    by simp
qed

text \<open>
  C8. For an existing file that parses to a mapping, or to \<^verbatim>\<open>None\<close> taken as the
  empty mapping, \<^verbatim>\<open>append_yaml\<close> writes to the file the dump of the old mapping
  updated with \<^verbatim>\<open>contents\<close>: a key of \<^verbatim>\<open>contents\<close> has the value \<^verbatim>\<open>contents\<close>
  gives it, and every other key has the value it had.
\<close>

theorem append_yaml_merges:
  assumes "fileio_exists E file_path fs"
    and "read_file_contents_as_string E file_path fs = Inr old_text"
    and "yaml_safe_load E old_text = Some loaded"
    and "loaded = PDict old \<or> (loaded = PNone \<and> old = [])"
    and "is_remote E file_path \<or> fileio_isdir E (path_parent E file_path) fs"
    and "is_dict contents"
    and "yaml_dump E (PDict (dict_update old contents)) True = Some new_text"
  shows "append_yaml E file_path contents fs
           = write_file_contents_as_string E file_path new_text fs
       \<and> (\<forall>k v. dict_get contents k = Some v \<longrightarrow>
             dict_get (dict_update old contents) k = Some v)
       \<and> (\<forall>k. dict_get contents k = None \<longrightarrow>
             dict_get (dict_update old contents) k = dict_get old k)"
proof -
  have read: "read_yaml E file_path fs = Inr loaded"
    using assms(1-3) by (simp add: read_yaml_def)
  have chosen: "(if truthy loaded then loaded else PDict []) = PDict old"
    using assms(4) by (cases old) auto
  have present: "\<not> directory_missing E file_path fs"
    using assms(5) by (auto simp: directory_missing_def)
  have "append_yaml E file_path contents fs
           = write_file_contents_as_string E file_path new_text fs"
    unfolding append_yaml_def read using chosen present assms(7) by (simp add: Let_def)
  then show ?thesis
    using dict_get_update [OF assms(6), of old] by simp
qed

text \<open>One key of the file is overwritten and one key is new.\<close>

theorem append_yaml_merges_witness:
  "append_yaml mem_io ''/home/conf.yaml'' [(PStr ''b'', PStr ''y''), (PStr ''a'', PStr ''z'')] home_fs
     = (Inr (), home_fs\<lparr>mem_files :=
          (''/home/conf.yaml'', ''a: z'' @ [CHR 0x0A] @ ''b: y'' @ [CHR 0x0A]) # mem_files home_fs\<rparr>)
   \<and> dict_get (dict_update [(PStr ''a'', PStr ''x'')] [(PStr ''b'', PStr ''y''), (PStr ''a'', PStr ''z'')])
        (PStr ''a'') = Some (PStr ''z'')"
proof -
  let ?p = "''/home/conf.yaml''"
  let ?old = "[(PStr ''a'', PStr ''x'')]"
  let ?c = "[(PStr ''b'', PStr ''y''), (PStr ''a'', PStr ''z'')]"
  let ?t = "''a: z'' @ [CHR 0x0A] @ ''b: y'' @ [CHR 0x0A]"
  have h1: "fileio_exists mem_io ?p home_fs" by (simp add: mem_simps)
  have h2: "read_file_contents_as_string mem_io ?p home_fs = Inr (''a: x'' @ [CHR 0x0A])"
    by (simp add: mem_simps)
  have h3: "yaml_safe_load mem_io (''a: x'' @ [CHR 0x0A]) = Some (PDict ?old)"
    by (simp add: mem_simps)
  have h4: "PDict ?old = PDict ?old \<or> (PDict ?old = PNone \<and> ?old = [])" by simp
  have h5: "is_remote mem_io ?p \<or> fileio_isdir mem_io (path_parent mem_io ?p) home_fs"
    by (simp add: mem_simps)
  have h6: "is_dict ?c" by (simp add: is_dict_def dict_keys_def)
  have h7: "yaml_dump mem_io (PDict (dict_update ?old ?c)) True = Some ?t"
    by (simp add: mem_simps)
  have w: "write_file_contents_as_string mem_io ?p ?t home_fs
     = (Inr (), home_fs\<lparr>mem_files := (?p, ?t) # mem_files home_fs\<rparr>)"
    by (simp add: mem_simps)
  have g: "dict_get ?c (PStr ''a'') = Some (PStr ''z'')" by simp
  show ?thesis
    using append_yaml_merges [OF h1 h2 h3 h4 h5 h6 h7] w g by simp
qed

section \<open>Properties of zenml.model.model_version\<close>

subsection \<open>The recorded calls\<close>

lemma call_get_model_calls:
  "call_get_model C n w = (r, w1) \<Longrightarrow> calls w1 = calls w @ [GetModel n]"
  by (auto simp: call_get_model_def split: prod.splits)

lemma call_create_model_calls:
  "call_create_model C rq w = (r, w1) \<Longrightarrow> calls w1 = calls w @ [CreateModel rq]"
  by (auto simp: call_create_model_def split: prod.splits)

lemma call_get_model_version_calls:
  "call_get_model_version C n v w = (r, w1) \<Longrightarrow> calls w1 = calls w @ [GetModelVersion n v]"
  by (auto simp: call_get_model_version_def split: prod.splits)

subsection \<open>Getting or creating the model\<close>

lemma get_or_create_model_found:
  "call_get_model C (name self) w = (Inr model, w1) \<Longrightarrow>
     get_or_create_model C self w = (Inr model, self\<lparr>priv_model_id := Some (model_id model)\<rparr>, w1)"
  by (simp add: get_or_create_model_def)

lemma get_or_create_model_missing:
  assumes "call_get_model C (name self) w = (Inl KeyError, w1)"
    and "call_create_model C (model_request C self) w1 = (created, w2)"
    and "call_get_model C (name self) w2 = (fetched, w3)"
  shows "get_or_create_model C self w =
     (case fetched of
        Inl e \<Rightarrow> (Inl e, self, w3)
      | Inr model \<Rightarrow>
          (case created of
             Inr m \<Rightarrow> (Inr model, self\<lparr>priv_model_id := Some (model_id model)\<rparr>, w3)
           | Inl e \<Rightarrow>
               if e = EntityExistsError
               then (Inr model, self\<lparr>priv_model_id := Some (model_id model)\<rparr>, w3)
               else (Inl e, self, w3)))"
  using assms by (simp add: get_or_create_model_def split: sum.splits exn.splits)

lemma get_or_create_model_Inr:
  assumes "get_or_create_model C self w = (Inr model, self', w')"
  shows "self' = self\<lparr>priv_model_id := Some (model_id model)\<rparr>
       \<and> (\<exists>w0. call_get_model C (name self) w0 = (Inr model, w'))
       \<and> create_model_version_calls (calls w') = create_model_version_calls (calls w)"
proof -
  obtain r1 w1 where g1: "call_get_model C (name self) w = (r1, w1)" by (cases "call_get_model C (name self) w")
  obtain r2 w2 where c2: "call_create_model C (model_request C self) w1 = (r2, w2)"
    by (cases "call_create_model C (model_request C self) w1")
  obtain r3 w3 where g3: "call_get_model C (name self) w2 = (r3, w3)" by (cases "call_get_model C (name self) w2")
  have l1: "calls w1 = calls w @ [GetModel (name self)]" using g1 by (rule call_get_model_calls)
  have l2: "calls w2 = calls w1 @ [CreateModel (model_request C self)]" using c2 by (rule call_create_model_calls)
  have l3: "calls w3 = calls w2 @ [GetModel (name self)]" using g3 by (rule call_get_model_calls)
  show ?thesis
  proof (cases r1)
    case (Inr m)
    with g1 have "get_or_create_model C self w
        = (Inr m, self\<lparr>priv_model_id := Some (model_id m)\<rparr>, w1)"
      by (simp add: get_or_create_model_found)
    with assms have eq: "model = m" "self' = self\<lparr>priv_model_id := Some (model_id m)\<rparr>" "w' = w1"
      by auto
    from g1 Inr l1 show ?thesis unfolding eq by (auto simp: create_model_version_calls_def)
  next
    case (Inl e)
    show ?thesis
    proof (cases "e = KeyError")
      case True
      with Inl g1 have g1': "call_get_model C (name self) w = (Inl KeyError, w1)" by simp
      from assms get_or_create_model_missing [OF g1' c2 g3]
      have "r3 = Inr model \<and> self' = self\<lparr>priv_model_id := Some (model_id model)\<rparr> \<and> w' = w3"
        by (auto split: sum.splits if_splits)
      with g3 l1 l2 l3 show ?thesis by (auto simp: create_model_version_calls_def)
    next
      case False
      with Inl g1 assms show ?thesis
        by (cases e) (simp_all add: get_or_create_model_def)
    qed
  qed
qed


text \<open>
  C4. \<^verbatim>\<open>_get_or_create_model\<close>: a model the store finds under \<^verbatim>\<open>self.name\<close> is
  returned after that one call; when the first lookup raises \<^verbatim>\<open>KeyError\<close>, a model is
  created from the request built of the metadata fields, and whether the creation
  succeeds or raises \<^verbatim>\<open>EntityExistsError\<close>, the model is looked up again and
  returned; whenever the method returns, the model returned is the one a lookup of
  \<^verbatim>\<open>self.name\<close> gave and \<^verbatim>\<open>_model_id\<close> is its id.
\<close>

theorem get_or_create_model_cases:
  "(\<forall>model w1. call_get_model C (name self) w = (Inr model, w1) \<longrightarrow>
      get_or_create_model C self w
        = (Inr model, self\<lparr>priv_model_id := Some (model_id model)\<rparr>, w1))
   \<and> (\<forall>w1 created w2 model w3.
        call_get_model C (name self) w = (Inl KeyError, w1)
        \<and> call_create_model C (model_request C self) w1 = (created, w2)
        \<and> (created = Inl EntityExistsError \<or> (\<exists>m. created = Inr m))
        \<and> call_get_model C (name self) w2 = (Inr model, w3) \<longrightarrow>
      get_or_create_model C self w
        = (Inr model, self\<lparr>priv_model_id := Some (model_id model)\<rparr>, w3)
      \<and> calls w3 = calls w @ [GetModel (name self), CreateModel (model_request C self),
                                GetModel (name self)])
   \<and> (\<forall>model self' w'. get_or_create_model C self w = (Inr model, self', w') \<longrightarrow>
        priv_model_id self' = Some (model_id model)
        \<and> (\<exists>w0. call_get_model C (name self) w0 = (Inr model, w')))
   \<and> req_name (model_request C self) = name self
   \<and> req_license (model_request C self) = license self
   \<and> req_description (model_request C self) = description self
   \<and> req_audience (model_request C self) = audience self
   \<and> req_use_cases (model_request C self) = use_cases self
   \<and> req_limitations (model_request C self) = limitations self
   \<and> req_trade_offs (model_request C self) = trade_offs self
   \<and> req_ethics (model_request C self) = ethics self
   \<and> req_tags (model_request C self) = tags self"
proof -
  have found: "\<forall>model w1. call_get_model C (name self) w = (Inr model, w1) \<longrightarrow>
      get_or_create_model C self w
        = (Inr model, self\<lparr>priv_model_id := Some (model_id model)\<rparr>, w1)"
    by (simp add: get_or_create_model_found)
  have missing: "\<forall>w1 created w2 model w3.
        call_get_model C (name self) w = (Inl KeyError, w1)
        \<and> call_create_model C (model_request C self) w1 = (created, w2)
        \<and> (created = Inl EntityExistsError \<or> (\<exists>m. created = Inr m))
        \<and> call_get_model C (name self) w2 = (Inr model, w3) \<longrightarrow>
      get_or_create_model C self w
        = (Inr model, self\<lparr>priv_model_id := Some (model_id model)\<rparr>, w3)
      \<and> calls w3 = calls w @ [GetModel (name self), CreateModel (model_request C self),
                                GetModel (name self)]"
  proof (intro allI impI, elim conjE)
    fix w1 created w2 model w3
    assume g1: "call_get_model C (name self) w = (Inl KeyError, w1)"
      and c2: "call_create_model C (model_request C self) w1 = (created, w2)"
      and ok: "created = Inl EntityExistsError \<or> (\<exists>m. created = Inr m)"
      and g3: "call_get_model C (name self) w2 = (Inr model, w3)"
    have "get_or_create_model C self w
        = (Inr model, self\<lparr>priv_model_id := Some (model_id model)\<rparr>, w3)"
      using get_or_create_model_missing [OF g1 c2 g3] ok by auto
    moreover have "calls w3 = calls w @ [GetModel (name self),
        CreateModel (model_request C self), GetModel (name self)]"
      using call_get_model_calls [OF g1] call_create_model_calls [OF c2]
        call_get_model_calls [OF g3] by simp
    ultimately show "get_or_create_model C self w
        = (Inr model, self\<lparr>priv_model_id := Some (model_id model)\<rparr>, w3)
      \<and> calls w3 = calls w @ [GetModel (name self), CreateModel (model_request C self),
                                GetModel (name self)]" by simp
  qed
  have success: "\<forall>model self' w'. get_or_create_model C self w = (Inr model, self', w') \<longrightarrow>
        priv_model_id self' = Some (model_id model)
        \<and> (\<exists>w0. call_get_model C (name self) w0 = (Inr model, w'))"
    using get_or_create_model_Inr [of C self w] by auto
  have fields: "req_name (model_request C self) = name self
   \<and> req_license (model_request C self) = license self
   \<and> req_description (model_request C self) = description self
   \<and> req_audience (model_request C self) = audience self
   \<and> req_use_cases (model_request C self) = use_cases self
   \<and> req_limitations (model_request C self) = limitations self
   \<and> req_trade_offs (model_request C self) = trade_offs self
   \<and> req_ethics (model_request C self) = ethics self
   \<and> req_tags (model_request C self) = tags self"
    by (simp add: model_request_def)
  from found missing success fields show ?thesis by blast
qed

text \<open>Evaluating the in-memory store.\<close>

lemmas store_simps = mem_client_def mem_store_def mem_get_model_def
  mem_create_model_def mem_get_model_version_def
  mem_create_model_version_def empty_world_def new_ModelVersion_def
  call_get_model_def call_create_model_def call_get_model_version_def
  call_create_model_version_def model_request_def model_version_request_def Let_def

text \<open>
  A missing model is created; a model that a second client creates after the miss is
  fetched; an existing model is fetched with one call.
\<close>

theorem get_or_create_model_cases_witness:
  "get_or_create_model mem_client (new_ModelVersion ''m'' None) empty_world
     = (Inr \<lparr>model_id = 1, model_name = ''m''\<rparr>,
        (new_ModelVersion ''m'' None)\<lparr>priv_model_id := Some 1\<rparr>,
        \<lparr>store = \<lparr>models = [\<lparr>model_id = 1, model_name = ''m''\<rparr>], model_versions = []\<rparr>,
         calls = [GetModel ''m'',
                  CreateModel (model_request mem_client (new_ModelVersion ''m'' None)),
                  GetModel ''m'']\<rparr>)
   \<and> get_or_create_model (mem_client\<lparr>zen_store := racing_store\<rparr>)
       (new_ModelVersion ''m'' None) empty_world
     = (Inr \<lparr>model_id = 1, model_name = ''m''\<rparr>,
        (new_ModelVersion ''m'' None)\<lparr>priv_model_id := Some 1\<rparr>,
        \<lparr>store = \<lparr>models = [\<lparr>model_id = 1, model_name = ''m''\<rparr>], model_versions = []\<rparr>,
         calls = [GetModel ''m'',
                  CreateModel (model_request mem_client (new_ModelVersion ''m'' None)),
                  GetModel ''m'']\<rparr>)
   \<and> get_or_create_model mem_client (new_ModelVersion ''m'' None)
        \<lparr>store = \<lparr>models = [\<lparr>model_id = 1, model_name = ''m''\<rparr>], model_versions = []\<rparr>,
         calls = []\<rparr>
     = (Inr \<lparr>model_id = 1, model_name = ''m''\<rparr>,
        (new_ModelVersion ''m'' None)\<lparr>priv_model_id := Some 1\<rparr>,
        \<lparr>store = \<lparr>models = [\<lparr>model_id = 1, model_name = ''m''\<rparr>], model_versions = []\<rparr>,
         calls = [GetModel ''m'']\<rparr>)"
proof -
  let ?self = "new_ModelVersion ''m'' None"
  let ?m = "\<lparr>model_id = 1, model_name = ''m''\<rparr>"
  let ?s = "\<lparr>models = [?m], model_versions = []\<rparr>"
  let ?rq = "model_request mem_client ?self"
  let ?R = "mem_client\<lparr>zen_store := racing_store\<rparr>"
  have n: "name ?self = ''m''" by (simp add: new_ModelVersion_def)
  have g1: "call_get_model mem_client ''m'' empty_world
      = (Inl KeyError, \<lparr>store = store empty_world, calls = [GetModel ''m'']\<rparr>)"
    by (simp add: store_simps)
  have c2: "call_create_model mem_client ?rq \<lparr>store = store empty_world, calls = [GetModel ''m'']\<rparr>
      = (Inr ?m, \<lparr>store = ?s, calls = [GetModel ''m'', CreateModel ?rq]\<rparr>)"
    by (simp add: store_simps)
  have g3: "call_get_model mem_client ''m'' \<lparr>store = ?s, calls = [GetModel ''m'', CreateModel ?rq]\<rparr>
      = (Inr ?m, \<lparr>store = ?s, calls = [GetModel ''m'', CreateModel ?rq, GetModel ''m'']\<rparr>)"
    by (simp add: store_simps)
  have r1: "call_get_model ?R ''m'' empty_world
      = (Inl KeyError, \<lparr>store = ?s, calls = [GetModel ''m'']\<rparr>)"
    by (simp add: store_simps racing_store_def racing_get_model_def)
  have rq: "model_request ?R ?self = ?rq" by (simp add: store_simps racing_store_def racing_get_model_def)
  have r2: "call_create_model ?R ?rq \<lparr>store = ?s, calls = [GetModel ''m'']\<rparr>
      = (Inl EntityExistsError, \<lparr>store = ?s, calls = [GetModel ''m'', CreateModel ?rq]\<rparr>)"
    by (simp add: store_simps racing_store_def racing_get_model_def)
  have r3: "call_get_model ?R ''m'' \<lparr>store = ?s, calls = [GetModel ''m'', CreateModel ?rq]\<rparr>
      = (Inr ?m, \<lparr>store = ?s, calls = [GetModel ''m'', CreateModel ?rq, GetModel ''m'']\<rparr>)"
    by (simp add: store_simps racing_store_def racing_get_model_def)
  have f1: "call_get_model mem_client ''m'' \<lparr>store = ?s, calls = []\<rparr>
      = (Inr ?m, \<lparr>store = ?s, calls = [GetModel ''m'']\<rparr>)"
    by (simp add: store_simps)
  note t1 = get_or_create_model_cases [of mem_client ?self empty_world]
  note t2 = get_or_create_model_cases [of ?R ?self empty_world]
  note t3 = get_or_create_model_cases [of mem_client ?self "\<lparr>store = ?s, calls = []\<rparr>"]
  have a: "get_or_create_model mem_client ?self empty_world
     = (Inr ?m, ?self\<lparr>priv_model_id := Some (model_id ?m)\<rparr>,
        \<lparr>store = ?s, calls = [GetModel ''m'', CreateModel ?rq, GetModel ''m'']\<rparr>)"
    using t1 g1 c2 g3 unfolding n by blast
  have b: "get_or_create_model ?R ?self empty_world
     = (Inr ?m, ?self\<lparr>priv_model_id := Some (model_id ?m)\<rparr>,
        \<lparr>store = ?s, calls = [GetModel ''m'', CreateModel ?rq, GetModel ''m'']\<rparr>)"
    using t2 r1 r2 r3 unfolding n rq by blast
  have c: "get_or_create_model mem_client ?self \<lparr>store = ?s, calls = []\<rparr>
     = (Inr ?m, ?self\<lparr>priv_model_id := Some (model_id ?m)\<rparr>,
        \<lparr>store = ?s, calls = [GetModel ''m'']\<rparr>)"
    using t3 f1 unfolding n by blast
  from a b c show ?thesis by simp
qed

subsection \<open>Getting or creating the model version\<close>

lemma first_step_mv_none:
  "\<not> list_ex (matches_created n) steps \<Longrightarrow> first_step_mv n steps = None"
  by (induction n steps rule: first_step_mv.induct) (auto simp: matches_created_def)

lemma version_from_step_context_unchanged:
  "\<not> created_in_this_run C (name self) \<Longrightarrow> version_from_step_context C self = self"
  by (auto simp: created_in_this_run_def version_from_step_context_def matches_created_def
      first_step_mv_none split: option.splits)

lemma version_from_step_context_version:
  "\<exists>v. version_from_step_context C self = self\<lparr>version := v\<rparr>"
proof -
  have same: "self = self\<lparr>version := version self\<rparr>" by simp
  show ?thesis
    unfolding version_from_step_context_def
    by (auto split: option.splits intro: exI [of _ "version self"])
qed

lemma except_KeyError_reserved:
  "reserved_name C (version self) \<Longrightarrow>
     except_KeyError C mv_request self w = (Inl ReservedNameError, self, w)"
  by (auto simp: except_KeyError_def reserved_name_def)

lemma except_KeyError_creates:
  assumes "\<not> reserved_name C (version self)"
    and "call_create_model_version C mv_request w = (Inr model_version, w')"
  shows "except_KeyError C mv_request self w =
     (Inr model_version,
      set_resolved (self\<lparr>version := Some (VStr (mvr_name model_version)),
                         was_created_in_this_run := True\<rparr>) model_version,
      w')"
  using assms by (auto simp: except_KeyError_def reserved_name_def)

lemma except_KeyError_Inr:
  "except_KeyError C mv_request self w = (Inr model_version, self', w') \<Longrightarrow>
     \<exists>x. self' = set_resolved x model_version"
  by (auto simp: except_KeyError_def split: if_splits prod.splits sum.splits)

lemma get_or_create_model_version_unfold:
  assumes "get_or_create_model C self w = (Inr model, self1, w1)"
  shows "get_or_create_model_version C self w =
     (let self2 = (if \<not> version_truthy (version self1)
                   then version_from_step_context C self1 else self1)
      in if version_truthy (version self2)
         then (case call_get_model_version C (name self2) (version self2) w1 of
                 (Inr model_version, w2) \<Rightarrow>
                   (Inr model_version, set_resolved self2 model_version, w2)
               | (Inl e, w2) \<Rightarrow>
                   if e = KeyError
                   then except_KeyError C (model_version_request C self1 model) self2 w2
                   else (Inl e, self2, w2))
         else except_KeyError C (model_version_request C self1 model) self2 w1)"
  using assms
  by (simp add: get_or_create_model_version_def get_model_version_m_def Let_def
      split: prod.splits sum.splits exn.splits)

lemma get_or_create_model_version_Inr:
  assumes "get_or_create_model_version C self w = (Inr model_version, self', w')"
  shows "\<exists>x. self' = set_resolved x model_version"
proof (cases "get_or_create_model C self w")
  case (fields r self1 w1)
  show ?thesis
  proof (cases r)
    case (Inl e)
    with fields assms show ?thesis by (simp add: get_or_create_model_version_def)
  next
    case (Inr model)
    with fields have g: "get_or_create_model C self w = (Inr model, self1, w1)" by simp
    show ?thesis
      using assms unfolding get_or_create_model_version_unfold [OF g] Let_def
      by (auto split: if_splits prod.splits sum.splits dest: except_KeyError_Inr)
  qed
qed

lemma set_resolved_fields:
  "priv_id (set_resolved x mv) = Some (mvr_id mv)"
  "priv_model_id (set_resolved x mv) = Some (model_id (mvr_model mv))"
  "priv_number (set_resolved x mv) = Some (mvr_number mv)"
  by (simp_all add: set_resolved_def)

text \<open>
  What the method does for a version that passes the test \<^verbatim>\<open>if self.version\<close>, and for
  no version. When the store finds the model and the model version,
  \<^verbatim>\<open>_get_or_create_model_version\<close> returns that model version after these two
  lookups and nothing is created. When \<^verbatim>\<open>version\<close> is \<^verbatim>\<open>None\<close> and no model version
  of the name was created in the current run, the model version that
  \<^verbatim>\<open>create_model_version\<close> returns is returned, \<^verbatim>\<open>version\<close> becomes its name and
  \<^verbatim>\<open>was_created_in_this_run\<close> becomes true.
\<close>

lemma get_or_create_model_version_resolves:
  "(\<forall>model w1 model_version w2.
      version_truthy (version self)
      \<and> call_get_model C (name self) w = (Inr model, w1)
      \<and> call_get_model_version C (name self) (version self) w1 = (Inr model_version, w2) \<longrightarrow>
      get_or_create_model_version C self w
        = (Inr model_version,
           set_resolved (self\<lparr>priv_model_id := Some (model_id model)\<rparr>) model_version, w2)
      \<and> calls w2 = calls w @ [GetModel (name self), GetModelVersion (name self) (version self)])
   \<and> (\<forall>model self1 w1 model_version w2.
      version self = None
      \<and> \<not> created_in_this_run C (name self)
      \<and> get_or_create_model C self w = (Inr model, self1, w1)
      \<and> call_create_model_version C (model_version_request C self model) w1
           = (Inr model_version, w2) \<longrightarrow>
      get_or_create_model_version C self w
        = (Inr model_version,
           set_resolved (self1\<lparr>version := Some (VStr (mvr_name model_version)),
                               was_created_in_this_run := True\<rparr>) model_version,
           w2)
      \<and> version (fst (snd (get_or_create_model_version C self w)))
           = Some (VStr (mvr_name model_version))
      \<and> was_created_in_this_run (fst (snd (get_or_create_model_version C self w))))"
proof (intro conjI allI impI; elim conjE)
  fix model w1 model_version w2
  assume t: "version_truthy (version self)"
    and g: "call_get_model C (name self) w = (Inr model, w1)"
    and f: "call_get_model_version C (name self) (version self) w1 = (Inr model_version, w2)"
  have m: "get_or_create_model C self w
      = (Inr model, self\<lparr>priv_model_id := Some (model_id model)\<rparr>, w1)"
    using g by (rule get_or_create_model_found)
  show "get_or_create_model_version C self w
        = (Inr model_version,
           set_resolved (self\<lparr>priv_model_id := Some (model_id model)\<rparr>) model_version, w2)"
    unfolding get_or_create_model_version_unfold [OF m] using t f by simp
  show "calls w2 = calls w @ [GetModel (name self), GetModelVersion (name self) (version self)]"
    using call_get_model_calls [OF g] call_get_model_version_calls [OF f] by simp
next
  fix model self1 w1 model_version w2
  assume v: "version self = None"
    and n: "\<not> created_in_this_run C (name self)"
    and m: "get_or_create_model C self w = (Inr model, self1, w1)"
    and c: "call_create_model_version C (model_version_request C self model) w1
           = (Inr model_version, w2)"
  have s1: "self1 = self\<lparr>priv_model_id := Some (model_id model)\<rparr>"
    using get_or_create_model_Inr [OF m] by simp
  have v1: "version self1 = None" and n1: "name self1 = name self" using v by (simp_all add: s1)
  have ctx: "version_from_step_context C self1 = self1"
    using n by (simp add: version_from_step_context_unchanged n1)
  have rq: "model_version_request C self1 model = model_version_request C self model"
    by (simp add: model_version_request_def s1)
  have free: "\<not> reserved_name C (version self1)"
    by (simp add: v1 reserved_name_def str_isnumeric_def is_ascii_def ascii_isnumeric_def
        is_digit_def)
  have res: "get_or_create_model_version C self w
        = (Inr model_version,
           set_resolved (self1\<lparr>version := Some (VStr (mvr_name model_version)),
                               was_created_in_this_run := True\<rparr>) model_version,
           w2)"
    unfolding get_or_create_model_version_unfold [OF m]
    using except_KeyError_creates [OF free, of "model_version_request C self model" w1 model_version w2] c
    by (simp add: ctx v1 rq)
  show "get_or_create_model_version C self w
        = (Inr model_version,
           set_resolved (self1\<lparr>version := Some (VStr (mvr_name model_version)),
                               was_created_in_this_run := True\<rparr>) model_version,
           w2)" by (rule res)
  show "version (fst (snd (get_or_create_model_version C self w)))
           = Some (VStr (mvr_name model_version))"
    by (simp add: res set_resolved_def)
  show "was_created_in_this_run (fst (snd (get_or_create_model_version C self w)))"
    by (simp add: res set_resolved_def)
qed


text \<open>
  An existing version fetched by its number, and a version created inside a step whose
  run has created a model version of another name only.
\<close>

lemma get_or_create_model_version_resolves_example:
  "get_or_create_model_version mem_client (new_ModelVersion ''m'' (Some (VInt 1)))
      \<lparr>store = \<lparr>models = [\<lparr>model_id = 1, model_name = ''m''\<rparr>],
                model_versions = [\<lparr>mvr_id = 100, mvr_name = ''1'', mvr_number = 1,
                   mvr_stage = None, mvr_model = \<lparr>model_id = 1, model_name = ''m''\<rparr>\<rparr>]\<rparr>,
       calls = []\<rparr>
     = (Inr \<lparr>mvr_id = 100, mvr_name = ''1'', mvr_number = 1, mvr_stage = None,
             mvr_model = \<lparr>model_id = 1, model_name = ''m''\<rparr>\<rparr>,
        (new_ModelVersion ''m'' (Some (VInt 1)))
          \<lparr>priv_model_id := Some 1, priv_id := Some 100, priv_number := Some 1\<rparr>,
        \<lparr>store = \<lparr>models = [\<lparr>model_id = 1, model_name = ''m''\<rparr>],
                model_versions = [\<lparr>mvr_id = 100, mvr_name = ''1'', mvr_number = 1,
                   mvr_stage = None, mvr_model = \<lparr>model_id = 1, model_name = ''m''\<rparr>\<rparr>]\<rparr>,
         calls = [GetModel ''m'', GetModelVersion ''m'' (Some (VInt 1))]\<rparr>)
   \<and> fst (get_or_create_model_version
        (mem_client\<lparr>get_step_context := Some
           \<lparr>pipeline_model_version =
              Some ((new_ModelVersion ''other'' (Some (VStr ''7'')))\<lparr>was_created_in_this_run := True\<rparr>),
            steps_model_versions = [None]\<rparr>\<rparr>)
        (new_ModelVersion ''m'' None) empty_world)
     = Inr \<lparr>mvr_id = 100, mvr_name = ''1'', mvr_number = 1, mvr_stage = None,
            mvr_model = \<lparr>model_id = 1, model_name = ''m''\<rparr>\<rparr>
   \<and> version (fst (snd (get_or_create_model_version
        (mem_client\<lparr>get_step_context := Some
           \<lparr>pipeline_model_version =
              Some ((new_ModelVersion ''other'' (Some (VStr ''7'')))\<lparr>was_created_in_this_run := True\<rparr>),
            steps_model_versions = [None]\<rparr>\<rparr>)
        (new_ModelVersion ''m'' None) empty_world)))
     = Some (VStr ''1'')
   \<and> was_created_in_this_run (fst (snd (get_or_create_model_version
        (mem_client\<lparr>get_step_context := Some
           \<lparr>pipeline_model_version =
              Some ((new_ModelVersion ''other'' (Some (VStr ''7'')))\<lparr>was_created_in_this_run := True\<rparr>),
            steps_model_versions = [None]\<rparr>\<rparr>)
        (new_ModelVersion ''m'' None) empty_world)))"
proof -
  let ?m = "\<lparr>model_id = 1, model_name = ''m''\<rparr>"
  let ?mv = "\<lparr>mvr_id = 100, mvr_name = ''1'', mvr_number = 1, mvr_stage = None, mvr_model = ?m\<rparr>"
  let ?s = "\<lparr>models = [?m], model_versions = [?mv]\<rparr>"
  let ?a = "new_ModelVersion ''m'' (Some (VInt 1))"
  let ?b = "new_ModelVersion ''m'' None"
  let ?C = "mem_client\<lparr>get_step_context := Some
           \<lparr>pipeline_model_version =
              Some ((new_ModelVersion ''other'' (Some (VStr ''7'')))\<lparr>was_created_in_this_run := True\<rparr>),
            steps_model_versions = [None]\<rparr>\<rparr>"
  let ?rq = "model_request mem_client ?b"
  let ?s1 = "\<lparr>models = [?m], model_versions = []\<rparr>"
  let ?w1 = "\<lparr>store = ?s1, calls = [GetModel ''m'', CreateModel ?rq, GetModel ''m'']\<rparr>"
  let ?vrq = "model_version_request ?C ?b ?m"
  have na: "name ?a = ''m''" and va: "version ?a = Some (VInt 1)"
    and nb: "name ?b = ''m''" and vb: "version ?b = None"
    by (simp_all add: new_ModelVersion_def)
  have a1: "version_truthy (version ?a)" by (simp add: va)
  have a2: "call_get_model mem_client ''m'' \<lparr>store = ?s, calls = []\<rparr>
      = (Inr ?m, \<lparr>store = ?s, calls = [GetModel ''m'']\<rparr>)"
    by (simp add: store_simps)
  have a3: "call_get_model_version mem_client ''m'' (Some (VInt 1))
        \<lparr>store = ?s, calls = [GetModel ''m'']\<rparr>
      = (Inr ?mv, \<lparr>store = ?s, calls = [GetModel ''m'', GetModelVersion ''m'' (Some (VInt 1))]\<rparr>)"
    by (simp add: store_simps)
  have b2: "\<not> created_in_this_run ?C ''m''"
    by (simp add: created_in_this_run_def matches_created_def new_ModelVersion_def)
  have b3: "get_or_create_model ?C ?b empty_world = (Inr ?m, ?b\<lparr>priv_model_id := Some 1\<rparr>, ?w1)"
    by (simp add: get_or_create_model_def store_simps)
  have b4: "call_create_model_version ?C ?vrq ?w1
      = (Inr ?mv, \<lparr>store = ?s, calls = calls ?w1 @ [CreateModelVersion ?vrq]\<rparr>)"
    by (simp add: store_simps str_int_def str_nat.simps digit_char_def)
  note ta = get_or_create_model_version_resolves [of ?a mem_client "\<lparr>store = ?s, calls = []\<rparr>"]
  note tb = get_or_create_model_version_resolves [of ?b ?C empty_world]
  have ra: "get_or_create_model_version mem_client ?a \<lparr>store = ?s, calls = []\<rparr>
      = (Inr ?mv, set_resolved (?a\<lparr>priv_model_id := Some (model_id ?m)\<rparr>) ?mv,
         \<lparr>store = ?s, calls = [GetModel ''m'', GetModelVersion ''m'' (Some (VInt 1))]\<rparr>)"
    using ta a1 a2 a3 unfolding na va by blast
  have rb: "get_or_create_model_version ?C ?b empty_world
        = (Inr ?mv,
           set_resolved ((?b\<lparr>priv_model_id := Some 1\<rparr>)\<lparr>version := Some (VStr (mvr_name ?mv)),
                               was_created_in_this_run := True\<rparr>) ?mv,
           \<lparr>store = ?s, calls = calls ?w1 @ [CreateModelVersion ?vrq]\<rparr>)"
    using tb vb b2 b3 b4 unfolding nb by blast
  show ?thesis unfolding ra rb by (simp add: set_resolved_def new_ModelVersion_def)
qed

text \<open>
  C1. The claim holds of every version that passes the test \<^verbatim>\<open>if self.version\<close>, and
  the docstring of the method says that a version that is not \<^verbatim>\<open>None\<close> is fetched. The
  code does not fetch a version that is set and empty. The store below holds, for the
  model \<^verbatim>\<open>m\<close>, a model version of the empty name and a model version of the number
  \<^verbatim>\<open>0\<close>, and a lookup finds each. For the version \<^verbatim>\<open>''\<close> the method looks up the model
  only, asks the store to create a model version and ends in its
  \<^verbatim>\<open>EntityExistsError\<close>; for the version \<^verbatim>\<open>0\<close> it looks up the model only and raises
  \<^verbatim>\<open>ReservedNameError\<close>.
\<close>

theorem empty_version_is_not_fetched:
  "fst (call_get_model_version mem_client ''m'' (Some (VStr ''''))
          \<lparr>store = \<lparr>models = [\<lparr>model_id = 1, model_name = ''m''\<rparr>],
                    model_versions =
                      [\<lparr>mvr_id = 100, mvr_name = '''', mvr_number = 1, mvr_stage = None,
                        mvr_model = \<lparr>model_id = 1, model_name = ''m''\<rparr>\<rparr>,
                       \<lparr>mvr_id = 101, mvr_name = ''zero'', mvr_number = 0, mvr_stage = None,
                        mvr_model = \<lparr>model_id = 1, model_name = ''m''\<rparr>\<rparr>]\<rparr>,
           calls = []\<rparr>)
     = Inr \<lparr>mvr_id = 100, mvr_name = '''', mvr_number = 1, mvr_stage = None,
            mvr_model = \<lparr>model_id = 1, model_name = ''m''\<rparr>\<rparr>
   \<and> fst (get_or_create_model_version mem_client (new_ModelVersion ''m'' (Some (VStr '''')))
          \<lparr>store = \<lparr>models = [\<lparr>model_id = 1, model_name = ''m''\<rparr>],
                    model_versions =
                      [\<lparr>mvr_id = 100, mvr_name = '''', mvr_number = 1, mvr_stage = None,
                        mvr_model = \<lparr>model_id = 1, model_name = ''m''\<rparr>\<rparr>,
                       \<lparr>mvr_id = 101, mvr_name = ''zero'', mvr_number = 0, mvr_stage = None,
                        mvr_model = \<lparr>model_id = 1, model_name = ''m''\<rparr>\<rparr>]\<rparr>,
           calls = []\<rparr>)
     = Inl EntityExistsError
   \<and> calls (snd (snd (get_or_create_model_version mem_client
          (new_ModelVersion ''m'' (Some (VStr '''')))
          \<lparr>store = \<lparr>models = [\<lparr>model_id = 1, model_name = ''m''\<rparr>],
                    model_versions =
                      [\<lparr>mvr_id = 100, mvr_name = '''', mvr_number = 1, mvr_stage = None,
                        mvr_model = \<lparr>model_id = 1, model_name = ''m''\<rparr>\<rparr>,
                       \<lparr>mvr_id = 101, mvr_name = ''zero'', mvr_number = 0, mvr_stage = None,
                        mvr_model = \<lparr>model_id = 1, model_name = ''m''\<rparr>\<rparr>]\<rparr>,
           calls = []\<rparr>)))
     = [GetModel ''m'',
        CreateModelVersion \<lparr>mvreq_user = 1, mvreq_workspace = 2, mvreq_name = Some (VStr ''''),
                            mvreq_description = None, mvreq_model = 1\<rparr>]
   \<and> fst (call_get_model_version mem_client ''m'' (Some (VInt 0))
          \<lparr>store = \<lparr>models = [\<lparr>model_id = 1, model_name = ''m''\<rparr>],
                    model_versions =
                      [\<lparr>mvr_id = 100, mvr_name = '''', mvr_number = 1, mvr_stage = None,
                        mvr_model = \<lparr>model_id = 1, model_name = ''m''\<rparr>\<rparr>,
                       \<lparr>mvr_id = 101, mvr_name = ''zero'', mvr_number = 0, mvr_stage = None,
                        mvr_model = \<lparr>model_id = 1, model_name = ''m''\<rparr>\<rparr>]\<rparr>,
           calls = []\<rparr>)
     = Inr \<lparr>mvr_id = 101, mvr_name = ''zero'', mvr_number = 0, mvr_stage = None,
            mvr_model = \<lparr>model_id = 1, model_name = ''m''\<rparr>\<rparr>
   \<and> fst (get_or_create_model_version mem_client (new_ModelVersion ''m'' (Some (VInt 0)))
          \<lparr>store = \<lparr>models = [\<lparr>model_id = 1, model_name = ''m''\<rparr>],
                    model_versions =
                      [\<lparr>mvr_id = 100, mvr_name = '''', mvr_number = 1, mvr_stage = None,
                        mvr_model = \<lparr>model_id = 1, model_name = ''m''\<rparr>\<rparr>,
                       \<lparr>mvr_id = 101, mvr_name = ''zero'', mvr_number = 0, mvr_stage = None,
                        mvr_model = \<lparr>model_id = 1, model_name = ''m''\<rparr>\<rparr>]\<rparr>,
           calls = []\<rparr>)
     = Inl ReservedNameError
   \<and> calls (snd (snd (get_or_create_model_version mem_client
          (new_ModelVersion ''m'' (Some (VInt 0)))
          \<lparr>store = \<lparr>models = [\<lparr>model_id = 1, model_name = ''m''\<rparr>],
                    model_versions =
                      [\<lparr>mvr_id = 100, mvr_name = '''', mvr_number = 1, mvr_stage = None,
                        mvr_model = \<lparr>model_id = 1, model_name = ''m''\<rparr>\<rparr>,
                       \<lparr>mvr_id = 101, mvr_name = ''zero'', mvr_number = 0, mvr_stage = None,
                        mvr_model = \<lparr>model_id = 1, model_name = ''m''\<rparr>\<rparr>]\<rparr>,
           calls = []\<rparr>)))
     = [GetModel ''m'']"
  by (simp add: get_or_create_model_version_def get_or_create_model_def get_model_version_m_def
      version_from_step_context_def except_KeyError_def store_simps str_lower_def
      str_isnumeric_def is_ascii_def ascii_lower_def ascii_isnumeric_def is_digit_def
      str_int_def str_nat.simps digit_char_def)

text \<open>
  C2, as the code has it. When \<^verbatim>\<open>_get_or_create_model\<close> has returned and the handler
  \<^verbatim>\<open>except KeyError\<close> is reached, because the version is empty or because the lookup
  of a set version raised \<^verbatim>\<open>KeyError\<close>, and the version is a set version whose lower
  case is a stage value, or its string is numeric (\<^verbatim>\<open>str.isnumeric\<close>, on every string
  of the interpreter), then
  \<^verbatim>\<open>_get_or_create_model_version\<close> raises \<^verbatim>\<open>ReservedNameError\<close>, issues no call of
  \<^verbatim>\<open>create_model_version\<close> and leaves the world as the failed lookup left it. What
  \<^verbatim>\<open>_get_or_create_model\<close> did before, creating the model when it was missing, stays
  done.
\<close>

theorem reserved_name_raises:
  assumes "get_or_create_model C self w = (Inr model, self1, w1)"
    and "self2 = (if \<not> version_truthy (version self1)
                  then version_from_step_context C self1 else self1)"
    and "(version_truthy (version self2)
            \<and> call_get_model_version C (name self2) (version self2) w1 = (Inl KeyError, w2))
         \<or> (\<not> version_truthy (version self2) \<and> w2 = w1)"
    and "reserved_name C (version self2)"
  shows "get_or_create_model_version C self w = (Inl ReservedNameError, self2, w2)
       \<and> create_model_version_calls (calls w2) = create_model_version_calls (calls w)"
proof -
  have raised: "get_or_create_model_version C self w = (Inl ReservedNameError, self2, w2)"
    unfolding get_or_create_model_version_unfold [OF assms(1)]
    using assms(2-4) by (auto simp: Let_def except_KeyError_reserved)
  have before: "create_model_version_calls (calls w1) = create_model_version_calls (calls w)"
    using get_or_create_model_Inr [OF assms(1)] by simp
  have after: "create_model_version_calls (calls w2) = create_model_version_calls (calls w1)"
    using assms(3)
    by (auto simp: create_model_version_calls_def dest: call_get_model_version_calls)
  from raised before after show ?thesis by simp
qed

text \<open>
  The stage name \<^verbatim>\<open>Staging\<close>, and the numeric string of the superscript two, as the
  version of a model that does not exist yet: the error is raised after the model has
  been created.
\<close>

theorem reserved_name_raises_witness:
  "get_or_create_model_version mem_client (new_ModelVersion ''m'' (Some (VStr ''Staging'')))
      empty_world
     = (Inl ReservedNameError,
        (new_ModelVersion ''m'' (Some (VStr ''Staging'')))\<lparr>priv_model_id := Some 1\<rparr>,
        \<lparr>store = \<lparr>models = [\<lparr>model_id = 1, model_name = ''m''\<rparr>], model_versions = []\<rparr>,
         calls = [GetModel ''m'',
                  CreateModel (model_request mem_client (new_ModelVersion ''m'' (Some (VStr ''Staging'')))),
                  GetModel ''m'',
                  GetModelVersion ''m'' (Some (VStr ''Staging''))]\<rparr>)
   \<and> create_model_version_calls
        [GetModel ''m'',
         CreateModel (model_request mem_client (new_ModelVersion ''m'' (Some (VStr ''Staging'')))),
         GetModel ''m'',
         GetModelVersion ''m'' (Some (VStr ''Staging''))] = []
   \<and> get_or_create_model_version superscript_client
        (new_ModelVersion ''m'' (Some (VStr superscript_two))) empty_world
     = (Inl ReservedNameError,
        (new_ModelVersion ''m'' (Some (VStr superscript_two)))\<lparr>priv_model_id := Some 1\<rparr>,
        \<lparr>store = \<lparr>models = [\<lparr>model_id = 1, model_name = ''m''\<rparr>], model_versions = []\<rparr>,
         calls = [GetModel ''m'',
                  CreateModel (model_request superscript_client
                                 (new_ModelVersion ''m'' (Some (VStr superscript_two)))),
                  GetModel ''m'',
                  GetModelVersion ''m'' (Some (VStr superscript_two))]\<rparr>)"
proof -
  let ?self = "new_ModelVersion ''m'' (Some (VStr ''Staging''))"
  let ?two = "new_ModelVersion ''m'' (Some (VStr superscript_two))"
  let ?two1 = "?two\<lparr>priv_model_id := Some 1\<rparr>"
  let ?m = "\<lparr>model_id = 1, model_name = ''m''\<rparr>"
  let ?s1 = "\<lparr>models = [?m], model_versions = []\<rparr>"
  let ?rq = "model_request mem_client ?self"
  let ?w1 = "\<lparr>store = ?s1, calls = [GetModel ''m'', CreateModel ?rq, GetModel ''m'']\<rparr>"
  let ?self1 = "?self\<lparr>priv_model_id := Some 1\<rparr>"
  let ?w2 = "\<lparr>store = ?s1, calls = [GetModel ''m'', CreateModel ?rq, GetModel ''m'',
                  GetModelVersion ''m'' (Some (VStr ''Staging''))]\<rparr>"
  have h1: "get_or_create_model mem_client ?self empty_world = (Inr ?m, ?self1, ?w1)"
    by (simp add: get_or_create_model_def store_simps)
  have h2: "?self1 = (if \<not> version_truthy (version ?self1)
                  then version_from_step_context mem_client ?self1 else ?self1)"
    by (simp add: new_ModelVersion_def)
  have h3: "(version_truthy (version ?self1)
            \<and> call_get_model_version mem_client (name ?self1) (version ?self1) ?w1
                = (Inl KeyError, ?w2))
         \<or> (\<not> version_truthy (version ?self1) \<and> ?w2 = ?w1)"
    by (simp add: store_simps)
  have h4: "reserved_name mem_client (version ?self1)"
    by (simp add: reserved_name_def new_ModelVersion_def mem_client_def str_lower_def
        is_ascii_def ascii_lower_def lower_char_def)
  let ?u2 = "\<lparr>store = ?s1, calls = [GetModel ''m'', CreateModel ?rq, GetModel ''m'',
                  GetModelVersion ''m'' (Some (VStr superscript_two))]\<rparr>"
  have rq: "model_request superscript_client ?two = ?rq"
    by (simp add: superscript_client_def store_simps)
  have u1: "get_or_create_model superscript_client ?two empty_world = (Inr ?m, ?two1, ?w1)"
    by (simp add: get_or_create_model_def superscript_client_def superscript_two_def store_simps)
  have u2: "?two1 = (if \<not> version_truthy (version ?two1)
                  then version_from_step_context superscript_client ?two1 else ?two1)"
    by (simp add: new_ModelVersion_def superscript_two_def)
  have u3: "(version_truthy (version ?two1)
            \<and> call_get_model_version superscript_client (name ?two1) (version ?two1) ?w1
                = (Inl KeyError, ?u2))
         \<or> (\<not> version_truthy (version ?two1) \<and> ?u2 = ?w1)"
    by (simp add: superscript_client_def superscript_two_def store_simps)
  have u4: "reserved_name superscript_client (version ?two1)"
    by (simp add: reserved_name_def new_ModelVersion_def superscript_client_def
        superscript_two_def mem_client_def str_isnumeric_def is_ascii_def)
  show ?thesis
    using reserved_name_raises [OF h1 h2 h3 h4] reserved_name_raises [OF u1 u2 u3 u4]
    by (simp add: empty_world_def create_model_version_calls_def rq)
qed

text \<open>
  C2, as the claim has it, fails: the call that raises \<^verbatim>\<open>ReservedNameError\<close> for the
  version \<^verbatim>\<open>staging\<close> of a model that does not exist has changed the store, which now
  holds the model.
\<close>

theorem reserved_name_store_unchanged_counterexample:
  "fst (get_or_create_model_version mem_client
          (new_ModelVersion ''m'' (Some (VStr ''staging''))) empty_world)
     = Inl ReservedNameError
   \<and> models (store empty_world) = []
   \<and> models (store (snd (snd (get_or_create_model_version mem_client
          (new_ModelVersion ''m'' (Some (VStr ''staging''))) empty_world))))
     = [\<lparr>model_id = 1, model_name = ''m''\<rparr>]
   \<and> store (snd (snd (get_or_create_model_version mem_client
          (new_ModelVersion ''m'' (Some (VStr ''staging''))) empty_world)))
     \<noteq> store empty_world"
  by (simp add: get_or_create_model_version_def get_or_create_model_def get_model_version_m_def
      except_KeyError_def store_simps str_lower_def is_ascii_def ascii_lower_def lower_char_def)

subsection \<open>The properties\<close>

text \<open>
  C3. A property whose private attribute is set returns it and leaves the object and
  the world, with its recorded calls, as they were, so the store is contacted only while
  the attribute is \<^verbatim>\<open>None\<close>. After a call of \<^verbatim>\<open>_get_or_create_model_version\<close> that
  returned, \<^verbatim>\<open>id\<close>, \<^verbatim>\<open>model_id\<close> and \<^verbatim>\<open>number\<close> return the values of the model
  version it returned, in any later world and without a call; the same holds for
  \<^verbatim>\<open>model_id\<close> after \<^verbatim>\<open>_get_or_create_model\<close>.
\<close>

theorem properties_are_cached:
  "(\<forall>u. priv_id self = Some u \<longrightarrow> id_property C self w = (Inr (Some u), self, w))
   \<and> (\<forall>u. priv_model_id self = Some u \<longrightarrow>
         model_id_property C self w = (Inr (Some u), self, w))
   \<and> (\<forall>n. priv_number self = Some n \<longrightarrow>
         number_property C self w = (Inr (Some n), self, w))
   \<and> (\<forall>model_version self' w' w''.
         get_or_create_model_version C self w = (Inr model_version, self', w') \<longrightarrow>
         id_property C self' w'' = (Inr (Some (mvr_id model_version)), self', w'')
         \<and> model_id_property C self' w''
             = (Inr (Some (model_id (mvr_model model_version))), self', w'')
         \<and> number_property C self' w'' = (Inr (Some (mvr_number model_version)), self', w''))
   \<and> (\<forall>model self' w' w''.
         get_or_create_model C self w = (Inr model, self', w') \<longrightarrow>
         model_id_property C self' w'' = (Inr (Some (model_id model)), self', w''))"
proof -
  have cached: "\<And>s x u. priv_id s = Some u \<Longrightarrow> id_property C s x = (Inr (Some u), s, x)"
      "\<And>s x u. priv_model_id s = Some u \<Longrightarrow> model_id_property C s x = (Inr (Some u), s, x)"
      "\<And>s x n. priv_number s = Some n \<Longrightarrow> number_property C s x = (Inr (Some n), s, x)"
    by (simp_all add: id_property_def model_id_property_def number_property_def)
  have resolved: "\<forall>model_version self' w' w''.
         get_or_create_model_version C self w = (Inr model_version, self', w') \<longrightarrow>
         id_property C self' w'' = (Inr (Some (mvr_id model_version)), self', w'')
         \<and> model_id_property C self' w''
             = (Inr (Some (model_id (mvr_model model_version))), self', w'')
         \<and> number_property C self' w'' = (Inr (Some (mvr_number model_version)), self', w'')"
  proof (intro allI impI)
    fix model_version self' w' w''
    assume "get_or_create_model_version C self w = (Inr model_version, self', w')"
    then obtain x where "self' = set_resolved x model_version"
      using get_or_create_model_version_Inr by blast
    then have "priv_id self' = Some (mvr_id model_version)"
        "priv_model_id self' = Some (model_id (mvr_model model_version))"
        "priv_number self' = Some (mvr_number model_version)"
      by (simp_all add: set_resolved_fields)
    then show "id_property C self' w'' = (Inr (Some (mvr_id model_version)), self', w'')
         \<and> model_id_property C self' w''
             = (Inr (Some (model_id (mvr_model model_version))), self', w'')
         \<and> number_property C self' w'' = (Inr (Some (mvr_number model_version)), self', w'')"
      by (simp add: cached)
  qed
  have model: "\<forall>model self' w' w''.
         get_or_create_model C self w = (Inr model, self', w') \<longrightarrow>
         model_id_property C self' w'' = (Inr (Some (model_id model)), self', w'')"
  proof (intro allI impI)
    fix model self' w' w''
    assume "get_or_create_model C self w = (Inr model, self', w')"
    then have "priv_model_id self' = Some (model_id model)"
      using get_or_create_model_Inr by fastforce
    then show "model_id_property C self' w'' = (Inr (Some (model_id model)), self', w'')"
      by (rule cached)
  qed
  from cached resolved model show ?thesis by blast
qed


text \<open>
  A set attribute is returned as it is; after a model version was created for a new
  model, the three properties return its values and the recorded calls stay the four
  of the resolution.
\<close>

theorem properties_are_cached_witness:
  "id_property mem_client ((new_ModelVersion ''m'' None)\<lparr>priv_id := Some 5\<rparr>) empty_world
     = (Inr (Some 5), (new_ModelVersion ''m'' None)\<lparr>priv_id := Some 5\<rparr>, empty_world)
   \<and> fst (get_or_create_model_version mem_client (new_ModelVersion ''m'' None) empty_world)
     = Inr \<lparr>mvr_id = 100, mvr_name = ''1'', mvr_number = 1, mvr_stage = None,
            mvr_model = \<lparr>model_id = 1, model_name = ''m''\<rparr>\<rparr>
   \<and> id_property mem_client
        (fst (snd (get_or_create_model_version mem_client (new_ModelVersion ''m'' None) empty_world)))
        (snd (snd (get_or_create_model_version mem_client (new_ModelVersion ''m'' None) empty_world)))
     = (Inr (Some 100),
        snd (get_or_create_model_version mem_client (new_ModelVersion ''m'' None) empty_world))
   \<and> model_id_property mem_client
        (fst (snd (get_or_create_model_version mem_client (new_ModelVersion ''m'' None) empty_world)))
        (snd (snd (get_or_create_model_version mem_client (new_ModelVersion ''m'' None) empty_world)))
     = (Inr (Some 1),
        snd (get_or_create_model_version mem_client (new_ModelVersion ''m'' None) empty_world))
   \<and> number_property mem_client
        (fst (snd (get_or_create_model_version mem_client (new_ModelVersion ''m'' None) empty_world)))
        (snd (snd (get_or_create_model_version mem_client (new_ModelVersion ''m'' None) empty_world)))
     = (Inr (Some 1),
        snd (get_or_create_model_version mem_client (new_ModelVersion ''m'' None) empty_world))
   \<and> length (calls (snd (snd (get_or_create_model_version mem_client
        (new_ModelVersion ''m'' None) empty_world)))) = 4"
proof -
  let ?self = "new_ModelVersion ''m'' None"
  let ?mv = "\<lparr>mvr_id = 100, mvr_name = ''1'', mvr_number = 1, mvr_stage = None,
            mvr_model = \<lparr>model_id = 1, model_name = ''m''\<rparr>\<rparr>"
  obtain r self' w' where res: "get_or_create_model_version mem_client ?self empty_world = (r, self', w')"
    by (cases "get_or_create_model_version mem_client ?self empty_world")
  have val: "fst (get_or_create_model_version mem_client ?self empty_world) = Inr ?mv"
    and len: "length (calls (snd (snd (get_or_create_model_version mem_client ?self empty_world)))) = 4"
    by (simp_all add: get_or_create_model_version_def get_or_create_model_def
        version_from_step_context_def except_KeyError_def set_resolved_def str_isnumeric_def
        is_ascii_def ascii_isnumeric_def is_digit_def str_int_def str_nat.simps digit_char_def
        store_simps)
  from val res have r: "r = Inr ?mv" by simp
  have set5: "priv_id (?self\<lparr>priv_id := Some 5\<rparr>) = Some 5" by simp
  note t1 = properties_are_cached [of "?self\<lparr>priv_id := Some 5\<rparr>" mem_client empty_world]
  note t2 = properties_are_cached [of ?self mem_client empty_world]
  have a: "id_property mem_client (?self\<lparr>priv_id := Some 5\<rparr>) empty_world
     = (Inr (Some 5), ?self\<lparr>priv_id := Some 5\<rparr>, empty_world)"
    using t1 set5 by blast
  have b: "id_property mem_client self' w' = (Inr (Some (mvr_id ?mv)), self', w')
      \<and> model_id_property mem_client self' w' = (Inr (Some (model_id (mvr_model ?mv))), self', w')
      \<and> number_property mem_client self' w' = (Inr (Some (mvr_number ?mv)), self', w')"
    using t2 res [unfolded r] by blast
  from a b val len show ?thesis unfolding res by simp
qed

lemma get_or_create_model_version_reserved:
  assumes "get_or_create_model C self w = (Inr model, self1, w1)"
    and "self2 = (if \<not> version_truthy (version self1)
                  then version_from_step_context C self1 else self1)"
    and "(version_truthy (version self2)
            \<and> call_get_model_version C (name self2) (version self2) w1 = (Inl KeyError, w2))
         \<or> (\<not> version_truthy (version self2) \<and> w2 = w1)"
    and "reserved_name C (version self2)"
  shows "get_or_create_model_version C self w = (Inl ReservedNameError, self2, w2)"
    and "priv_id self2 = priv_id self" and "priv_number self2 = priv_number self"
proof -
  show "get_or_create_model_version C self w = (Inl ReservedNameError, self2, w2)"
    unfolding get_or_create_model_version_unfold [OF assms(1)]
    using assms(2-4) by (auto simp: Let_def except_KeyError_reserved)
  have s1: "self1 = self\<lparr>priv_model_id := Some (model_id model)\<rparr>"
    using get_or_create_model_Inr [OF assms(1)] by simp
  obtain v where "version_from_step_context C self1 = self1\<lparr>version := v\<rparr>"
    using version_from_step_context_version by blast
  with assms(2) s1 show "priv_id self2 = priv_id self" and "priv_number self2 = priv_number self"
    by (auto split: if_splits)
qed

text \<open>
  C9. Under the conditions in which \<^verbatim>\<open>_get_or_create_model_version\<close> raises
  \<^verbatim>\<open>ReservedNameError\<close> (the model was got or created, the handler was reached and the
  version is a stage value or numeric, in the sense of \<^verbatim>\<open>str.isnumeric\<close> on every
  string of the interpreter), \<^verbatim>\<open>id\<close> and \<^verbatim>\<open>number\<close>, read while their attribute is
  \<^verbatim>\<open>None\<close>, return \<^verbatim>\<open>None\<close> and no exception, and so does \<^verbatim>\<open>stage\<close>.
\<close>

theorem properties_return_None_for_reserved_name:
  assumes "get_or_create_model C self w = (Inr model, self1, w1)"
    and "self2 = (if \<not> version_truthy (version self1)
                  then version_from_step_context C self1 else self1)"
    and "(version_truthy (version self2)
            \<and> call_get_model_version C (name self2) (version self2) w1 = (Inl KeyError, w2))
         \<or> (\<not> version_truthy (version self2) \<and> w2 = w1)"
    and "reserved_name C (version self2)"
  shows "(priv_id self = None \<longrightarrow> id_property C self w = (Inr None, self2, w2))
       \<and> (priv_number self = None \<longrightarrow> number_property C self w = (Inr None, self2, w2))
       \<and> stage_property C self w = (Inr None, self2, w2)"
proof -
  note r = get_or_create_model_version_reserved [OF assms]
  have "priv_id self = None \<longrightarrow> id_property C self w = (Inr None, self2, w2)"
    using r by (simp add: id_property_def)
  moreover have "priv_number self = None \<longrightarrow> number_property C self w = (Inr None, self2, w2)"
    using r by (simp add: number_property_def)
  moreover have "stage_property C self w = (Inr None, self2, w2)"
    using r by (simp add: stage_property_def)
  ultimately show ?thesis by simp
qed

text \<open>
  The version \<^verbatim>\<open>42\<close>, and the version of the superscript two, of a model that has no
  versions.
\<close>

theorem properties_return_None_for_reserved_name_witness:
  "id_property mem_client (new_ModelVersion ''m'' (Some (VInt 42)))
      \<lparr>store = \<lparr>models = [\<lparr>model_id = 1, model_name = ''m''\<rparr>], model_versions = []\<rparr>, calls = []\<rparr>
     = (Inr None, (new_ModelVersion ''m'' (Some (VInt 42)))\<lparr>priv_model_id := Some 1\<rparr>,
        \<lparr>store = \<lparr>models = [\<lparr>model_id = 1, model_name = ''m''\<rparr>], model_versions = []\<rparr>,
         calls = [GetModel ''m'', GetModelVersion ''m'' (Some (VInt 42))]\<rparr>)
   \<and> number_property mem_client (new_ModelVersion ''m'' (Some (VInt 42)))
      \<lparr>store = \<lparr>models = [\<lparr>model_id = 1, model_name = ''m''\<rparr>], model_versions = []\<rparr>, calls = []\<rparr>
     = (Inr None, (new_ModelVersion ''m'' (Some (VInt 42)))\<lparr>priv_model_id := Some 1\<rparr>,
        \<lparr>store = \<lparr>models = [\<lparr>model_id = 1, model_name = ''m''\<rparr>], model_versions = []\<rparr>,
         calls = [GetModel ''m'', GetModelVersion ''m'' (Some (VInt 42))]\<rparr>)
   \<and> stage_property mem_client (new_ModelVersion ''m'' (Some (VInt 42)))
      \<lparr>store = \<lparr>models = [\<lparr>model_id = 1, model_name = ''m''\<rparr>], model_versions = []\<rparr>, calls = []\<rparr>
     = (Inr None, (new_ModelVersion ''m'' (Some (VInt 42)))\<lparr>priv_model_id := Some 1\<rparr>,
        \<lparr>store = \<lparr>models = [\<lparr>model_id = 1, model_name = ''m''\<rparr>], model_versions = []\<rparr>,
         calls = [GetModel ''m'', GetModelVersion ''m'' (Some (VInt 42))]\<rparr>)
   \<and> id_property superscript_client (new_ModelVersion ''m'' (Some (VStr superscript_two)))
      \<lparr>store = \<lparr>models = [\<lparr>model_id = 1, model_name = ''m''\<rparr>], model_versions = []\<rparr>, calls = []\<rparr>
     = (Inr None, (new_ModelVersion ''m'' (Some (VStr superscript_two)))\<lparr>priv_model_id := Some 1\<rparr>,
        \<lparr>store = \<lparr>models = [\<lparr>model_id = 1, model_name = ''m''\<rparr>], model_versions = []\<rparr>,
         calls = [GetModel ''m'', GetModelVersion ''m'' (Some (VStr superscript_two))]\<rparr>)"
proof -
  let ?two = "new_ModelVersion ''m'' (Some (VStr superscript_two))"
  let ?two1 = "?two\<lparr>priv_model_id := Some 1\<rparr>"
  let ?self = "new_ModelVersion ''m'' (Some (VInt 42))"
  let ?m = "\<lparr>model_id = 1, model_name = ''m''\<rparr>"
  let ?s = "\<lparr>models = [?m], model_versions = []\<rparr>"
  let ?w = "\<lparr>store = ?s, calls = []\<rparr>"
  let ?w1 = "\<lparr>store = ?s, calls = [GetModel ''m'']\<rparr>"
  let ?w2 = "\<lparr>store = ?s, calls = [GetModel ''m'', GetModelVersion ''m'' (Some (VInt 42))]\<rparr>"
  let ?self1 = "?self\<lparr>priv_model_id := Some 1\<rparr>"
  have h1: "get_or_create_model mem_client ?self ?w = (Inr ?m, ?self1, ?w1)"
    by (simp add: get_or_create_model_def store_simps)
  have h2: "?self1 = (if \<not> version_truthy (version ?self1)
                  then version_from_step_context mem_client ?self1 else ?self1)"
    by (simp add: new_ModelVersion_def)
  have h3: "(version_truthy (version ?self1)
            \<and> call_get_model_version mem_client (name ?self1) (version ?self1) ?w1
                = (Inl KeyError, ?w2))
         \<or> (\<not> version_truthy (version ?self1) \<and> ?w2 = ?w1)"
    by (simp add: store_simps)
  have h4: "reserved_name mem_client (version ?self1)"
    by (simp add: reserved_name_def new_ModelVersion_def str_isnumeric_def is_ascii_def
        ascii_isnumeric_def is_digit_def
        str_int_def str_nat.simps digit_char_def)
  have n: "priv_id ?self = None" "priv_number ?self = None"
    by (simp_all add: new_ModelVersion_def)
  let ?u2 = "\<lparr>store = ?s, calls = [GetModel ''m'', GetModelVersion ''m'' (Some (VStr superscript_two))]\<rparr>"
  have u1: "get_or_create_model superscript_client ?two ?w = (Inr ?m, ?two1, ?w1)"
    by (simp add: get_or_create_model_def superscript_client_def superscript_two_def store_simps)
  have u2: "?two1 = (if \<not> version_truthy (version ?two1)
                  then version_from_step_context superscript_client ?two1 else ?two1)"
    by (simp add: new_ModelVersion_def superscript_two_def)
  have u3: "(version_truthy (version ?two1)
            \<and> call_get_model_version superscript_client (name ?two1) (version ?two1) ?w1
                = (Inl KeyError, ?u2))
         \<or> (\<not> version_truthy (version ?two1) \<and> ?u2 = ?w1)"
    by (simp add: superscript_client_def superscript_two_def store_simps)
  have u4: "reserved_name superscript_client (version ?two1)"
    by (simp add: reserved_name_def new_ModelVersion_def superscript_client_def
        superscript_two_def mem_client_def str_isnumeric_def is_ascii_def)
  have un: "priv_id ?two = None" by (simp add: new_ModelVersion_def)
  show ?thesis
    using properties_return_None_for_reserved_name [OF h1 h2 h3 h4]
      properties_return_None_for_reserved_name [OF u1 u2 u3 u4] n un
    by simp
qed

subsection \<open>Equality and hash\<close>

lemma version_eq_refl: "version_eq v v"
  by (cases v) simp_all

lemma version_eq_py_str:
  "version_eq a b \<Longrightarrow> is_bool a = is_bool b \<Longrightarrow> py_str a = py_str b"
proof (cases a)
  case None
  then show "version_eq a b \<Longrightarrow> py_str a = py_str b" by (cases b) simp_all
next
  case (Some x)
  assume eq: "version_eq a b" and bools: "is_bool a = is_bool b"
  from Some eq obtain y where b: "b = Some y" by (cases b) simp_all
  from eq bools show "py_str a = py_str b"
    unfolding Some b by (cases x; cases y) (simp_all split: if_splits)
qed

text \<open>
  C10, as the code has it. Two objects of equal name and equal version are equal, and
  two objects of different names are unequal; in both cases \<^verbatim>\<open>__eq__\<close> leaves the
  objects and the world, with its recorded calls, as they were. The hash is a function
  of the name and of the \<^verbatim>\<open>str\<close> of the version alone; two objects of equal name and
  equal version have the same hash when both versions are booleans or neither is.
\<close>

theorem eq_and_hash_by_name_and_version:
  "(name a = name b \<and> version_eq (version a) (version b) \<longrightarrow>
      eq_method C a b w = (Inr True, a, b, w))
   \<and> (name a = name b \<and> version_eq (version a) (version b)
        \<and> is_bool (version a) = is_bool (version b) \<longrightarrow>
      hash_method py_hash a = hash_method py_hash b)
   \<and> (name a \<noteq> name b \<longrightarrow> eq_method C a b w = (Inr False, a, b, w))
   \<and> (name a = name b \<and> py_str (version a) = py_str (version b) \<longrightarrow>
      hash_method py_hash a = hash_method py_hash b)
   \<and> (name a = name b \<and> version a = version b \<longrightarrow>
      eq_method C a b w = (Inr True, a, b, w) \<and> hash_method py_hash a = hash_method py_hash b)"
  by (auto simp: eq_method_def hash_method_def hash_key_def version_eq_refl
      dest: version_eq_py_str)

text \<open>
  A stage and the string of its value are equal versions; the objects differ in other
  fields.
\<close>

theorem eq_and_hash_by_name_and_version_witness:
  "eq_method mem_client (new_ModelVersion ''m'' (Some (VStage ''staging'')))
      ((new_ModelVersion ''m'' (Some (VStr ''staging'')))\<lparr>license := Some ''MIT''\<rparr>) empty_world
     = (Inr True, new_ModelVersion ''m'' (Some (VStage ''staging'')),
        (new_ModelVersion ''m'' (Some (VStr ''staging'')))\<lparr>license := Some ''MIT''\<rparr>, empty_world)
   \<and> hash_method length_hash (new_ModelVersion ''m'' (Some (VStage ''staging'')))
     = hash_method length_hash
         ((new_ModelVersion ''m'' (Some (VStr ''staging'')))\<lparr>license := Some ''MIT''\<rparr>)
   \<and> eq_method mem_client (new_ModelVersion ''m'' None) (new_ModelVersion ''n'' None) empty_world
     = (Inr False, new_ModelVersion ''m'' None, new_ModelVersion ''n'' None, empty_world)"
proof -
  let ?a = "new_ModelVersion ''m'' (Some (VStage ''staging''))"
  let ?b = "(new_ModelVersion ''m'' (Some (VStr ''staging'')))\<lparr>license := Some ''MIT''\<rparr>"
  let ?c = "new_ModelVersion ''m'' None"
  let ?d = "new_ModelVersion ''n'' None"
  have same: "name ?a = name ?b \<and> version_eq (version ?a) (version ?b)"
    and bools: "is_bool (version ?a) = is_bool (version ?b)"
    by (simp_all add: new_ModelVersion_def)
  have other: "name ?c \<noteq> name ?d" by (simp add: new_ModelVersion_def)
  show ?thesis
    using eq_and_hash_by_name_and_version [of ?a ?b mem_client empty_world length_hash]
      eq_and_hash_by_name_and_version [of ?c ?d mem_client empty_world length_hash]
      same bools other
    by simp
qed

text \<open>
  C10, as the claim has it, fails: the versions \<^verbatim>\<open>True\<close> and \<^verbatim>\<open>1\<close> are equal, so the
  two objects are equal, but the strings hashed are \<^verbatim>\<open>m::True\<close> and \<^verbatim>\<open>m::1\<close>, which a
  hash tells apart.
\<close>

theorem equal_versions_hash_counterexample:
  "name (new_ModelVersion ''m'' (Some (VBool True))) = name (new_ModelVersion ''m'' (Some (VInt 1)))
   \<and> version_eq (version (new_ModelVersion ''m'' (Some (VBool True))))
        (version (new_ModelVersion ''m'' (Some (VInt 1))))
   \<and> eq_method mem_client (new_ModelVersion ''m'' (Some (VBool True)))
        (new_ModelVersion ''m'' (Some (VInt 1))) empty_world
      = (Inr True, new_ModelVersion ''m'' (Some (VBool True)),
         new_ModelVersion ''m'' (Some (VInt 1)), empty_world)
   \<and> hash_key (new_ModelVersion ''m'' (Some (VBool True))) = ''m::True''
   \<and> hash_key (new_ModelVersion ''m'' (Some (VInt 1))) = ''m::1''
   \<and> hash_method length_hash (new_ModelVersion ''m'' (Some (VBool True)))
      \<noteq> hash_method length_hash (new_ModelVersion ''m'' (Some (VInt 1)))"
  by (simp add: eq_method_def hash_method_def hash_key_def new_ModelVersion_def length_hash_def
      str_int_def str_nat.simps digit_char_def)

end
